theory Spec2Isabelle
  imports Complex_Main
begin

section \<open>JavaScript values and exceptions\<close>

text \<open>
  The request body is untyped JSON, so the fields the handlers read are JavaScript values:
  what \<^verbatim>\<open>JSON.parse\<close> can produce, and \<open>JUndefined\<close> for a field that is absent.
  Numbers are modelled as integers: the handlers only test them for truthiness and copy
  them, except the analyzer scores, which are averaged (see \<open>overallScore_of\<close>).
\<close>

datatype jsval =
    JUndefined | JNull | JBool bool | JNum int | JStr string
  | JArr "jsval list" | JObj "(string \<times> jsval) list"

text \<open>JavaScript truthiness: what \<^verbatim>\<open>!x\<close>, \<^verbatim>\<open>x || y\<close> and \<^verbatim>\<open>x && y\<close> test.\<close>

fun truthy :: "jsval \<Rightarrow> bool" where
  "truthy JUndefined = False"
| "truthy JNull = False"
| "truthy (JBool b) = b"
| "truthy (JNum n) = (n \<noteq> 0)"
| "truthy (JStr s) = (s \<noteq> [])"
| "truthy (JArr xs) = True"
| "truthy (JObj kvs) = True"

text \<open>
  Whether a value can be converted to a string, as a template literal and the URL
  constructor do. A primitive always can. An object parsed from JSON has no callable
  property of its own: with an own \<open>toString\<close> property the conversion finds no method
  that returns a primitive and throws a TypeError; without one the inherited method
  answers. An array is joined, which converts each element.
\<close>

fun stringifies :: "jsval \<Rightarrow> bool" where
  "stringifies (JArr xs) = list_all stringifies xs"
| "stringifies (JObj kvs) = (''toString'' \<notin> set (map fst kvs))"
| "stringifies _ = True"

text \<open>A thrown value: an \<^verbatim>\<open>Error\<close> with its message, or anything else.\<close>

datatype exn = Error string | NonError

text \<open>
  A template literal \<^verbatim>\<open>`... ${v}`\<close> in a log line: nothing observable when \<open>v\<close>
  converts, a TypeError otherwise.
\<close>

definition template_literal :: "jsval \<Rightarrow> exn option" where
  "template_literal v =
     (if stringifies v then None
      else Some (Error ''Cannot convert object to primitive value''))"

section \<open>The analysis report (unnamed/part_000, lines 44-63)\<close>

record metrics =
  lcp :: int
  fcp :: int
  cls :: int
  tbt :: int
  si :: int

text \<open>
  The speed, font and image analyzers return objects of the shape the report stores;
  the handler copies them field by field.
\<close>

record pageLoadSpeed =
  score :: int
  grade :: string
  metrics :: metrics
  lighthouseScore :: int
  issues :: "string list"
  recommendations :: "string list"
  loadTime :: int

record fontUsage =
  score :: int
  fontFamilies :: "string list"
  fontCount :: int
  issues :: "string list"
  recommendations :: "string list"

record imageOptimization =
  score :: int
  totalImages :: int
  modernFormats :: int
  withAltText :: int
  appropriatelySized :: int
  issues :: "string list"
  recommendations :: "string list"
  details :: "(string \<times> jsval) list"

record cta =
  "text" :: string
  type :: string
  isAboveFold :: bool
  actionStrength :: string
  urgency :: string
  visibility :: string
  "context" :: string

record primaryCTA =
  "text" :: string
  type :: string
  actionStrength :: string
  visibility :: string
  "context" :: string

text \<open>What \<^verbatim>\<open>analyzeCTA\<close> resolves to.\<close>

record ctaResult =
  score :: int
  ctas :: "cta list"
  primaryCTA :: "cta option"
  issues :: "string list"
  recommendations :: "string list"

record ctaAnalysis =
  score :: int
  ctas :: "cta list"
  primaryCTA :: "primaryCTA option"
  issues :: "string list"
  recommendations :: "string list"

record whitespaceAssessment =
  score :: int
  issues :: "string list"

record socialProof =
  score :: int
  elements :: "string list"
  issues :: "string list"

text \<open>
  The report is parametric in its speed section: part_000 stores the speed analyzer's
  result there, route.ts only a placeholder of another shape.
\<close>

record 'p analysisResult =
  url :: string
  pageLoadSpeed :: 'p
  fontUsage :: fontUsage
  imageOptimization :: imageOptimization
  ctaAnalysis :: ctaAnalysis
  whitespaceAssessment :: whitespaceAssessment
  socialProof :: socialProof
  overallScore :: int
  status :: string

section \<open>The HTTP interface\<close>

text \<open>
  The parsed request body, as far as the handlers and the client use it. The handlers
  destructure \<open>url\<close> and \<open>component\<close> only; the client also sends \<open>forceRescan\<close>.
\<close>

record body =
  url :: jsval
  component :: jsval
  forceRescan :: jsval

text \<open>A response is the object literal given to \<^verbatim>\<open>NextResponse.json\<close> and a status.\<close>

datatype 'p json_field = FBool bool | FStr string | FAnalysis "'p analysisResult"

record 'p response =
  json :: "(string \<times> 'p json_field) list"
  status :: nat

definition NextResponse_json :: "(string \<times> 'p json_field) list \<Rightarrow> nat option \<Rightarrow> 'p response" where
  "NextResponse_json obj init =
     \<lparr> json = obj, status = (case init of None \<Rightarrow> 200 | Some s \<Rightarrow> s) \<rparr>"

text \<open>What \<^verbatim>\<open>new URL(url)\<close> yields: the protocol and the serialisation of the URL.\<close>

record URL =
  protocol :: string
  href :: string

text \<open>
  Calls that leave the handler, in the order they are made. \<open>PageGoto\<close> stands for the
  rendering of the page in route.ts: \<^verbatim>\<open>newPage\<close>, \<^verbatim>\<open>setViewport\<close>, \<^verbatim>\<open>goto\<close> and
  \<^verbatim>\<open>content\<close>.
\<close>

datatype effect =
    CallPageSpeed string
  | CallFontUsage string
  | CallImageOptimization string
  | CallCTA string
  | PuppeteerLaunch
  | PageGoto string
  | PageClose
  | BrowserClose

text \<open>
  The collaborators of the handler that are not part of these files: the platform's URL
  parser (\<open>None\<close> when it throws), the four analyzers, each either resolving to a
  result or rejecting, and \<open>double_round_mean\<close>, the rounded mean as double
  arithmetic computes it where integers do not represent it (see \<open>overallScore_of\<close>).
\<close>

record deps =
  new_URL :: "jsval \<Rightarrow> URL option"
  double_round_mean :: "int list \<Rightarrow> int"
  analyzePageSpeed :: "string \<Rightarrow> exn + pageLoadSpeed"
  analyzeFontUsage :: "string \<Rightarrow> exn + fontUsage"
  analyzeImageOptimization :: "string \<Rightarrow> exn + imageOptimization"
  analyzeCTA :: "string \<Rightarrow> exn + ctaResult"

section \<open>The analysis handler of unnamed/part_000\<close>

text \<open>
  \<^verbatim>\<open>new URL(url)\<close>: the constructor converts its argument to a string, throwing when
  that fails, and hands it to the parser.
\<close>

definition URL_constructor :: "deps \<Rightarrow> jsval \<Rightarrow> URL option" where
  "URL_constructor d u = (if stringifies u then new_URL d u else None)"

text \<open>Lines 28-42: the try block around the URL constructor and the protocol test.\<close>

definition validate :: "deps \<Rightarrow> jsval \<Rightarrow> URL option" where
  "validate d u =
     (case URL_constructor d u of
        None \<Rightarrow> None
      | Some validatedUrl \<Rightarrow>
          if protocol validatedUrl \<notin> set [''http:'', ''https:''] then None
          else Some validatedUrl)"

text \<open>Lines 45-63: the report before any analyzer has run.\<close>

definition initial_pageLoadSpeed :: pageLoadSpeed where
  "initial_pageLoadSpeed =
     \<lparr> pageLoadSpeed.score = 0, grade = ''F'',
       metrics = \<lparr> lcp = 0, fcp = 0, cls = 0, tbt = 0, si = 0 \<rparr>,
       lighthouseScore = 0, issues = [], recommendations = [], loadTime = 0 \<rparr>"

definition initial_fontUsage :: fontUsage where
  "initial_fontUsage =
     \<lparr> fontUsage.score = 0, fontFamilies = [], fontCount = 0, issues = [],
       recommendations = [] \<rparr>"

definition initial_imageOptimization :: imageOptimization where
  "initial_imageOptimization =
     \<lparr> imageOptimization.score = 0, totalImages = 0, modernFormats = 0, withAltText = 0,
       appropriatelySized = 0, issues = [], recommendations = [], details = [] \<rparr>"

definition initial_ctaAnalysis :: ctaAnalysis where
  "initial_ctaAnalysis =
     \<lparr> ctaAnalysis.score = 0, ctas = [], primaryCTA = None, issues = [],
       recommendations = [] \<rparr>"

definition initial_whitespaceAssessment :: whitespaceAssessment where
  "initial_whitespaceAssessment = \<lparr> whitespaceAssessment.score = 0, issues = [] \<rparr>"

definition initial_socialProof :: socialProof where
  "initial_socialProof = \<lparr> socialProof.score = 0, elements = [], issues = [] \<rparr>"

definition initial_analysisResult :: "URL \<Rightarrow> pageLoadSpeed analysisResult" where
  "initial_analysisResult validatedUrl =
     \<lparr> analysisResult.url = href validatedUrl,
       pageLoadSpeed = initial_pageLoadSpeed,
       fontUsage = initial_fontUsage,
       imageOptimization = initial_imageOptimization,
       ctaAnalysis = initial_ctaAnalysis,
       whitespaceAssessment = initial_whitespaceAssessment,
       socialProof = initial_socialProof,
       overallScore = 0,
       status = ''completed'' \<rparr>"

text \<open>Line 68.\<close>

definition shouldRun :: "jsval \<Rightarrow> string \<Rightarrow> bool" where
  "shouldRun cmp componentName \<longleftrightarrow>
     \<not> truthy cmp \<or> cmp = JStr ''all'' \<or> cmp = JStr componentName"

text \<open>
  The mutable locals of the handler: the report under construction, the \<open>scores\<close> array
  and the calls made so far.
\<close>

record 'p run =
  analysisResult :: "'p analysisResult"
  scores :: "int list"
  trace :: "effect list"

text \<open>Lines 70-97: the speed block catches what the analyzer throws.\<close>

definition failed_pageLoadSpeed :: pageLoadSpeed where
  "failed_pageLoadSpeed =
     \<lparr> pageLoadSpeed.score = 0, grade = ''F'',
       metrics = \<lparr> lcp = 0, fcp = 0, cls = 0, tbt = 0, si = 0 \<rparr>,
       lighthouseScore = 0, issues = [''Page speed analysis failed due to error''],
       recommendations = [], loadTime = 0 \<rparr>"

definition speed_block :: "deps \<Rightarrow> jsval \<Rightarrow> URL \<Rightarrow> pageLoadSpeed run \<Rightarrow> pageLoadSpeed run" where
  "speed_block d cmp validatedUrl r =
     (if shouldRun cmp ''speed'' \<or> shouldRun cmp ''pageSpeed'' then
        let r = r\<lparr> trace := trace r @ [CallPageSpeed (href validatedUrl)] \<rparr> in
        (case analyzePageSpeed d (href validatedUrl) of
           Inr pageSpeedResult \<Rightarrow>
             r\<lparr> analysisResult := (analysisResult r)
                  \<lparr> pageLoadSpeed :=
                      \<lparr> pageLoadSpeed.score = pageLoadSpeed.score pageSpeedResult,
                        grade = grade pageSpeedResult,
                        metrics = metrics pageSpeedResult,
                        lighthouseScore = lighthouseScore pageSpeedResult,
                        issues = pageLoadSpeed.issues pageSpeedResult,
                        recommendations = pageLoadSpeed.recommendations pageSpeedResult,
                        loadTime = loadTime pageSpeedResult \<rparr> \<rparr>,
                scores := scores r @ [pageLoadSpeed.score pageSpeedResult] \<rparr>
         | Inl e \<Rightarrow>
             r\<lparr> analysisResult := (analysisResult r)
                  \<lparr> pageLoadSpeed := failed_pageLoadSpeed \<rparr> \<rparr>)
      else r)"

text \<open>
  Lines 99-110 and 112-126: the font and image blocks await their analyzer outside any
  inner try, so a rejection leaves the block; it carries the calls made so far.
\<close>

definition font_block ::
  "deps \<Rightarrow> jsval \<Rightarrow> URL \<Rightarrow> 'p run \<Rightarrow> (exn \<times> effect list) + 'p run" where
  "font_block d cmp validatedUrl r =
     (if shouldRun cmp ''font'' then
        let r = r\<lparr> trace := trace r @ [CallFontUsage (href validatedUrl)] \<rparr> in
        (case analyzeFontUsage d (href validatedUrl) of
           Inl e \<Rightarrow> Inl (e, trace r)
         | Inr fontUsageResult \<Rightarrow>
             Inr (r\<lparr> analysisResult := (analysisResult r)
                  \<lparr> fontUsage :=
                      \<lparr> fontUsage.score = fontUsage.score fontUsageResult,
                        fontFamilies = fontFamilies fontUsageResult,
                        fontCount = fontCount fontUsageResult,
                        issues = fontUsage.issues fontUsageResult,
                        recommendations = fontUsage.recommendations fontUsageResult \<rparr> \<rparr>,
                scores := scores r @ [fontUsage.score fontUsageResult] \<rparr>))
      else Inr r)"

definition image_block ::
  "deps \<Rightarrow> jsval \<Rightarrow> URL \<Rightarrow> 'p run \<Rightarrow> (exn \<times> effect list) + 'p run" where
  "image_block d cmp validatedUrl r =
     (if shouldRun cmp ''image'' then
        let r = r\<lparr> trace := trace r @ [CallImageOptimization (href validatedUrl)] \<rparr> in
        (case analyzeImageOptimization d (href validatedUrl) of
           Inl e \<Rightarrow> Inl (e, trace r)
         | Inr imageOptimizationResult \<Rightarrow>
             Inr (r\<lparr> analysisResult := (analysisResult r)
                  \<lparr> imageOptimization :=
                      \<lparr> imageOptimization.score = imageOptimization.score imageOptimizationResult,
                        totalImages = totalImages imageOptimizationResult,
                        modernFormats = modernFormats imageOptimizationResult,
                        withAltText = withAltText imageOptimizationResult,
                        appropriatelySized = appropriatelySized imageOptimizationResult,
                        issues = imageOptimization.issues imageOptimizationResult,
                        recommendations = imageOptimization.recommendations imageOptimizationResult,
                        details = details imageOptimizationResult \<rparr> \<rparr>,
                scores := scores r @ [imageOptimization.score imageOptimizationResult] \<rparr>))
      else Inr r)"

text \<open>Lines 136-157 and 160-165: the two reports of the CTA block.\<close>

definition cta_section :: "ctaResult \<Rightarrow> ctaAnalysis" where
  "cta_section ctaResult =
     \<lparr> ctaAnalysis.score = ctaResult.score ctaResult,
       ctas = map (\<lambda>cta. \<lparr> cta.text = cta.text cta, type = cta.type cta,
                            isAboveFold = isAboveFold cta,
                            actionStrength = cta.actionStrength cta,
                            urgency = urgency cta,
                            visibility = cta.visibility cta,
                            context = cta.context cta \<rparr>) (ctaResult.ctas ctaResult),
       primaryCTA =
         (case ctaResult.primaryCTA ctaResult of
            Some p \<Rightarrow> Some \<lparr> primaryCTA.text = cta.text p, type = cta.type p,
                             actionStrength = cta.actionStrength p,
                             visibility = cta.visibility p,
                             context = cta.context p \<rparr>
          | None \<Rightarrow> None),
       issues = ctaResult.issues ctaResult,
       recommendations = ctaResult.recommendations ctaResult \<rparr>"

definition failed_ctaAnalysis :: ctaAnalysis where
  "failed_ctaAnalysis =
     \<lparr> ctaAnalysis.score = 0, ctas = [], primaryCTA = None,
       issues = [''CTA analysis failed due to error''], recommendations = [] \<rparr>"

text \<open>Lines 128-167: the CTA block catches what the analyzer throws.\<close>

definition cta_block :: "deps \<Rightarrow> jsval \<Rightarrow> URL \<Rightarrow> 'p run \<Rightarrow> 'p run" where
  "cta_block d cmp validatedUrl r =
     (if shouldRun cmp ''cta'' then
        let r = r\<lparr> trace := trace r @ [CallCTA (href validatedUrl)] \<rparr> in
        (case analyzeCTA d (href validatedUrl) of
           Inr ctaResult \<Rightarrow>
             r\<lparr> analysisResult := (analysisResult r)\<lparr> ctaAnalysis := cta_section ctaResult \<rparr>,
                scores := scores r @ [ctaResult.score ctaResult] \<rparr>
         | Inl e \<Rightarrow>
             r\<lparr> analysisResult := (analysisResult r)\<lparr> ctaAnalysis := failed_ctaAnalysis \<rparr> \<rparr>)
      else r)"

text \<open>
  \<^verbatim>\<open>Math.round\<close> rounds to the nearest integer, a tie towards plus infinity.
\<close>

definition Math_round :: "real \<Rightarrow> int" where
  "Math_round x = \<lfloor>x + 1 / 2\<rfloor>"

text \<open>The range the specification gives a score.\<close>

definition score_in_range :: "int \<Rightarrow> bool" where
  "score_in_range s \<longleftrightarrow> 0 \<le> s \<and> s \<le> 100"

text \<open>
  Line 170. The code adds and divides doubles. For at most four scores within 0..100
  (a run pushes at most four) every sum is an integer far below \<open>2^53\<close>, so the sum is
  exact, and the quotient is either a half-integer, which is exact, or at least 1/8 away
  from one, far more than the rounding of the division: \<^verbatim>\<open>Math.round\<close> yields what
  the real quotient yields. Outside that range the result is left to the collaborator
  \<open>double_round_mean\<close>.
\<close>

definition overallScore_of :: "deps \<Rightarrow> int list \<Rightarrow> int" where
  "overallScore_of d xs =
     (if length xs > 0
      then (if list_all score_in_range xs \<and> length xs \<le> 4
            then Math_round (real_of_int (foldl (\<lambda>sum score. sum + score) 0 xs)
                              / real (length xs))
            else double_round_mean d xs)
      else 0)"

text \<open>Lines 175-179: the response that ends the outer try.\<close>

definition success_response :: "'p analysisResult \<Rightarrow> 'p response" where
  "success_response report =
     NextResponse_json
       [(''success'', FBool True),
        (''analysis'', FAnalysis report),
        (''message'', FStr ''Analysis completed successfully.'')] None"

text \<open>
  Lines 12-180: the body of the outer try. The request is \<open>Inl e\<close> when
  \<^verbatim>\<open>request.json()\<close> rejects or the body cannot be destructured. Lines 16 and 17
  log \<^verbatim>\<open>${url}\<close> and \<^verbatim>\<open>${component || 'all'}\<close>; the other log lines print strings
  and numbers and cannot throw. The result is the response and the calls made, or what
  was thrown and the calls made until then.
\<close>

definition POST_try ::
  "deps \<Rightarrow> exn + body \<Rightarrow> (exn \<times> effect list) + (pageLoadSpeed response \<times> effect list)" where
  "POST_try d request =
     (case request of
        Inl e \<Rightarrow> Inl (e, [])
      | Inr body \<Rightarrow>
          (case template_literal (body.url body) of
             Some e \<Rightarrow> Inl (e, [])
           | None \<Rightarrow>
          (case template_literal
                  (if truthy (component body) then component body else JStr ''all'') of
             Some e \<Rightarrow> Inl (e, [])
           | None \<Rightarrow>
          if \<not> truthy (body.url body) then
            Inr (NextResponse_json [(''error'', FStr ''URL is required'')] (Some 400), [])
          else
            (case validate d (body.url body) of
               None \<Rightarrow>
                 Inr (NextResponse_json [(''error'', FStr ''Invalid URL format'')] (Some 400), [])
             | Some validatedUrl \<Rightarrow>
                 let r0 = \<lparr> analysisResult = initial_analysisResult validatedUrl,
                            scores = [], trace = [] \<rparr>;
                     r1 = speed_block d (component body) validatedUrl r0
                 in (case font_block d (component body) validatedUrl r1 of
                       Inl thrown \<Rightarrow> Inl thrown
                     | Inr r2 \<Rightarrow>
                         (case image_block d (component body) validatedUrl r2 of
                            Inl thrown \<Rightarrow> Inl thrown
                          | Inr r3 \<Rightarrow>
                              let r4 = cta_block d (component body) validatedUrl r3 in
                              Inr (success_response
                                     ((analysisResult r4)
                                        \<lparr> overallScore := overallScore_of d (scores r4) \<rparr>),
                                   trace r4)))))))"

text \<open>Lines 9-188: the outer try and its catch (lines 181-187).\<close>

definition POST :: "deps \<Rightarrow> exn + body \<Rightarrow> pageLoadSpeed response \<times> effect list" where
  "POST d request =
     (case POST_try d request of
        Inr answered \<Rightarrow> answered
      | Inl (e, tr) \<Rightarrow>
          (NextResponse_json [(''error'', FStr ''Internal server error'')] (Some 500), tr))"

section \<open>The analysis handler of src/app/api/analyze/route.ts\<close>

text \<open>
  This handler has no speed analyzer; its speed section is the placeholder of line 46.
  It renders the page itself for the CTA analyzer (lines 93-146), so the browser calls
  are collaborators too: \<open>puppeteer_launch\<close> is \<open>Some e\<close> when the launch rejects with
  \<open>e\<close>; \<open>page_content\<close> stands for \<^verbatim>\<open>newPage\<close>, \<^verbatim>\<open>setViewport\<close>, \<^verbatim>\<open>goto\<close> and
  \<^verbatim>\<open>content\<close>, which reject or give the HTML; \<open>page_close\<close> and \<open>browser_close\<close> are
  \<open>Some e\<close> when they reject.
\<close>

record speed_placeholder =
  score :: int
  metrics :: "(string \<times> jsval) list"

record browser_api =
  puppeteer_launch :: "exn option"
  page_content :: "string \<Rightarrow> exn + string"
  page_close :: "exn option"
  browser_close :: "exn option"

definition initial_analysisResult_route :: "URL \<Rightarrow> speed_placeholder analysisResult" where
  "initial_analysisResult_route validatedUrl =
     \<lparr> analysisResult.url = href validatedUrl,
       pageLoadSpeed = \<lparr> speed_placeholder.score = 0, metrics = [] \<rparr>,
       fontUsage = initial_fontUsage,
       imageOptimization = initial_imageOptimization,
       ctaAnalysis = initial_ctaAnalysis,
       whitespaceAssessment = initial_whitespaceAssessment,
       socialProof = initial_socialProof,
       overallScore = 0,
       status = ''completed'' \<rparr>"

text \<open>
  Lines 99-143: the inner try and its catch. The score is pushed before \<^verbatim>\<open>page.close()\<close>
  is awaited, so a rejection there replaces the section and leaves the score pushed.
\<close>

definition cta_try_route :: "deps \<Rightarrow> browser_api \<Rightarrow> URL \<Rightarrow> 'p run \<Rightarrow> 'p run" where
  "cta_try_route d b validatedUrl r =
     (let r = r\<lparr> trace := trace r @ [PageGoto (href validatedUrl)] \<rparr>;
          failed = (\<lambda>r. r\<lparr> analysisResult :=
                              (analysisResult r)\<lparr> ctaAnalysis := failed_ctaAnalysis \<rparr> \<rparr>)
      in case page_content b (href validatedUrl) of
           Inl e \<Rightarrow> failed r
         | Inr htmlContent \<Rightarrow>
             let r = r\<lparr> trace := trace r @ [CallCTA htmlContent] \<rparr> in
             (case analyzeCTA d htmlContent of
                Inl e \<Rightarrow> failed r
              | Inr ctaResult \<Rightarrow>
                  let r = r\<lparr> analysisResult :=
                               (analysisResult r)\<lparr> ctaAnalysis := cta_section ctaResult \<rparr>,
                             scores := scores r @ [ctaResult.score ctaResult],
                             trace := trace r @ [PageClose] \<rparr>
                  in (case page_close b of Some e \<Rightarrow> failed r | None \<Rightarrow> r)))"

text \<open>
  Lines 90-147: the launch is awaited before the inner try and \<^verbatim>\<open>browser.close()\<close> in
  its finally, so a rejection of either leaves the block.
\<close>

definition cta_block_route ::
  "deps \<Rightarrow> browser_api \<Rightarrow> jsval \<Rightarrow> URL \<Rightarrow> 'p run \<Rightarrow> (exn \<times> effect list) + 'p run" where
  "cta_block_route d b cmp validatedUrl r =
     (if shouldRun cmp ''cta'' then
        let r = r\<lparr> trace := trace r @ [PuppeteerLaunch] \<rparr> in
        (case puppeteer_launch b of
           Some e \<Rightarrow> Inl (e, trace r)
         | None \<Rightarrow>
             let r = cta_try_route d b validatedUrl r;
                 r = r\<lparr> trace := trace r @ [BrowserClose] \<rparr>
             in (case browser_close b of
                   Some e \<Rightarrow> Inl (e, trace r)
                 | None \<Rightarrow> Inr r))
      else Inr r)"

text \<open>Lines 11-160: the body of the outer try, with the log lines 15 and 16.\<close>

definition POST_route_try ::
  "deps \<Rightarrow> browser_api \<Rightarrow> exn + body
     \<Rightarrow> (exn \<times> effect list) + (speed_placeholder response \<times> effect list)" where
  "POST_route_try d b request =
     (case request of
        Inl e \<Rightarrow> Inl (e, [])
      | Inr body \<Rightarrow>
          (case template_literal (body.url body) of
             Some e \<Rightarrow> Inl (e, [])
           | None \<Rightarrow>
          (case template_literal
                  (if truthy (component body) then component body else JStr ''all'') of
             Some e \<Rightarrow> Inl (e, [])
           | None \<Rightarrow>
          if \<not> truthy (body.url body) then
            Inr (NextResponse_json [(''error'', FStr ''URL is required'')] (Some 400), [])
          else
            (case validate d (body.url body) of
               None \<Rightarrow>
                 Inr (NextResponse_json [(''error'', FStr ''Invalid URL format'')] (Some 400), [])
             | Some validatedUrl \<Rightarrow>
                 let r0 = \<lparr> analysisResult = initial_analysisResult_route validatedUrl,
                            scores = [], trace = [] \<rparr>
                 in (case font_block d (component body) validatedUrl r0 of
                       Inl thrown \<Rightarrow> Inl thrown
                     | Inr r1 \<Rightarrow>
                         (case image_block d (component body) validatedUrl r1 of
                            Inl thrown \<Rightarrow> Inl thrown
                          | Inr r2 \<Rightarrow>
                              (case cta_block_route d b (component body) validatedUrl r2 of
                                 Inl thrown \<Rightarrow> Inl thrown
                               | Inr r3 \<Rightarrow>
                                   Inr (success_response
                                          ((analysisResult r3)
                                             \<lparr> overallScore := overallScore_of d (scores r3) \<rparr>),
                                        trace r3))))))))"

text \<open>Lines 8-168: the outer try and its catch (lines 161-167).\<close>

definition POST_route ::
  "deps \<Rightarrow> browser_api \<Rightarrow> exn + body \<Rightarrow> speed_placeholder response \<times> effect list" where
  "POST_route d b request =
     (case POST_route_try d b request of
        Inr answered \<Rightarrow> answered
      | Inl (e, tr) \<Rightarrow>
          (NextResponse_json [(''error'', FStr ''Internal server error'')] (Some 500), tr))"

section \<open>The browser session provider (unnamed/part_001)\<close>

record process_env =
  NODE_ENV :: "string option"
  BLESS_KEY :: "string option"

text \<open>The options object; a field left out is \<open>None\<close> and takes the default of line 25.\<close>

record options =
  forceBrowserless :: "bool option"
  blockConsentModals :: "bool option"

text \<open>The module \<^verbatim>\<open>import('puppeteer')\<close> resolves to: what \<^verbatim>\<open>executablePath()\<close> does.\<close>

record puppeteer_module =
  executablePath :: "exn + string"

text \<open>
  What the provider calls outside this file: \<^verbatim>\<open>puppeteer.connect\<close> by endpoint,
  \<^verbatim>\<open>puppeteer.launch\<close> by executable path, the dynamic import and
  \<^verbatim>\<open>encodeURIComponent\<close>. \<open>'b\<close> is the browser handle.
\<close>

record 'b platform =
  puppeteer_connect :: "string \<Rightarrow> exn + 'b"
  puppeteer_core_launch :: "string option \<Rightarrow> exn + 'b"
  import_puppeteer :: "exn + puppeteer_module"
  encodeURIComponent :: "string \<Rightarrow> string"

datatype provider_effect =
    Connect string
  | Launch "string list" "string option"

text \<open>
  Lines 6-17, with the module variable \<open>localPuppeteer\<close> passed in and out. The first
  call catches a failing import or \<^verbatim>\<open>executablePath()\<close> and returns null; a later call
  with the module already loaded does not catch.
\<close>

definition getLocalExecutablePath ::
  "'b platform \<Rightarrow> puppeteer_module option \<Rightarrow> (exn + string option) \<times> puppeteer_module option" where
  "getLocalExecutablePath p localPuppeteer =
     (case localPuppeteer of
        None \<Rightarrow>
          (case import_puppeteer p of
             Inl e \<Rightarrow> (Inr None, None)
           | Inr m \<Rightarrow>
               (case executablePath m of
                  Inl e \<Rightarrow> (Inr None, Some m)
                | Inr path \<Rightarrow> (Inr (Some path), Some m)))
      | Some m \<Rightarrow>
          (case executablePath m of
             Inl e \<Rightarrow> (Inl e, Some m)
           | Inr path \<Rightarrow> (Inr (Some path), Some m)))"

definition truthy_str :: "string option \<Rightarrow> bool" where
  "truthy_str s = (case s of None \<Rightarrow> False | Some v \<Rightarrow> v \<noteq> [])"

text \<open>Line 52: the message of the error thrown when the connection fails.\<close>

definition connection_failed :: "exn \<Rightarrow> exn" where
  "connection_failed e =
     Error (''Browserless connection failed: '' @
            (case e of Error message \<Rightarrow> message | NonError \<Rightarrow> ''Unknown error''))"

text \<open>
  Lines 19-69. The result is what the promise settles to, the calls made to puppeteer and
  the module variable. The key is read with \<open>the\<close> only in the branch where
  \<open>truthy_str\<close> has found it set.
\<close>

definition createPuppeteerBrowser ::
  "process_env \<Rightarrow> 'b platform \<Rightarrow> puppeteer_module option \<Rightarrow> options
     \<Rightarrow> (exn + 'b) \<times> provider_effect list \<times> puppeteer_module option" where
  \<open>createPuppeteerBrowser env p localPuppeteer opts =
     (let isProduction = (NODE_ENV env = Some ''production'');
          browserlessKey = BLESS_KEY env;
          forceBrowserless' = (case forceBrowserless opts of None \<Rightarrow> False | Some v \<Rightarrow> v);
          blockConsentModals' = (case blockConsentModals opts of None \<Rightarrow> False | Some v \<Rightarrow> v)
      in if (isProduction \<or> forceBrowserless') \<and> truthy_str browserlessKey then
           let browserWSEndpoint =
                 ''wss://production-sfo.browserless.io?token='' @ the browserlessKey
                   @ ''&headless=false&stealth=true&blockAds=true'';
               browserWSEndpoint =
                 (if blockConsentModals'
                  then browserWSEndpoint @ ''&launch=''
                         @ encodeURIComponent p ''{"blockConsentModals":true}''
                  else browserWSEndpoint)
           in (case puppeteer_connect p browserWSEndpoint of
                 Inr browser \<Rightarrow> (Inr browser, [Connect browserWSEndpoint], localPuppeteer)
               | Inl e \<Rightarrow> (Inl (connection_failed e), [Connect browserWSEndpoint], localPuppeteer))
         else
           (case getLocalExecutablePath p localPuppeteer of
              (Inl e, lp) \<Rightarrow> (Inl e, [], lp)
            | (Inr path, lp) \<Rightarrow>
                (puppeteer_core_launch p path,
                 [Launch [''--no-sandbox'', ''--disable-setuid-sandbox'',
                          ''--disable-dev-shm-usage'', ''--disable-gpu''] path],
                 lp)))\<close>

section \<open>The page (src/app/page.tsx)\<close>

text \<open>
  The page reads one field of the report, \<open>screenshotUrl\<close>; the rest of the report is
  displayed only. The object the analysis endpoint answers with is read as
  \<^verbatim>\<open>result.analysis || result\<close>, so it is a report itself that may carry a report.
\<close>

record analysisData =
  screenshotUrl :: "string option"

record analyzeReply = analysisData +
  analysis :: "analysisData option"
  fromCache :: "bool option"
  analysisId :: "string option"

record screenshot =
  url :: "string option"

record screenshotResult =
  screenshot :: "screenshot option"

text \<open>
  How a \<^verbatim>\<open>fetch\<close> settles: it rejects; or it resolves with \<^verbatim>\<open>response.ok\<close> false and
  \<^verbatim>\<open>response.json()\<close> rejecting or giving an object with an optional \<open>error\<close> field;
  or it resolves with \<^verbatim>\<open>response.ok\<close> true and \<^verbatim>\<open>response.json()\<close> rejecting or
  giving the payload.
\<close>

datatype 'a fetched = Rejected exn | NotOk "exn + string option" | Ok "exn + 'a"

text \<open>Lines 15-27.\<close>

record AnalysisState =
  result :: "analysisData option"
  isLoading :: bool
  error :: "string option"
  showEmailInput :: bool
  currentUrl :: "string option"
  fromCache :: bool
  emailSubmitted :: bool
  emailSentToAPI :: bool
  screenshotUrl :: "string option"
  analysisId :: "string option"
  emailLoading :: bool

datatype request =
    FetchScreenshot string
  | FetchAnalyze string bool
  | FetchEmail string string

text \<open>
  A request that is awaited, with the code that runs when it settles: the callback of
  the screenshot request (lines 70-81), the rest of \<open>handleAnalyze\<close> after the analysis
  request (lines 93-126), and the rest of \<open>callEmailAPI\<close> (lines 153-170), which
  returns to \<open>handleEmailSubmit\<close> (nothing left to do) or to the flush in
  \<open>handleAnalyze\<close> (line 117 left to do).
\<close>

datatype caller = HandleEmailSubmit | HandleAnalyze

datatype awaited = ScreenshotRequest | AnalysisRequest | EmailRequest caller

text \<open>
  The component: its state, the \<open>pendingEmailRef\<close> cell of line 45, the requests it
  has sent and the requests it awaits. Each definition below is one uninterrupted
  stretch of the source between two awaits, reading the state as it is when the stretch
  runs. An optional string is read with \<open>the\<close> only where \<open>truthy_str\<close> has found
  it set, as the source reads a value after testing it.
\<close>

record page =
  analysisState :: AnalysisState
  pendingEmailRef :: "string option"
  requests :: "request list"
  awaiting :: "awaited list"

text \<open>Lines 30-45.\<close>

definition Home :: page where
  "Home =
     \<lparr> analysisState =
         \<lparr> result = None, isLoading = False, error = None, showEmailInput = False,
           currentUrl = None, fromCache = False, emailSubmitted = False,
           emailSentToAPI = False, screenshotUrl = None, analysisId = None,
           emailLoading = False \<rparr>,
       pendingEmailRef = None,
       requests = [],
       awaiting = [] \<rparr>"

text \<open>Lines 47-90: the state is replaced and both requests are sent.\<close>

definition handleAnalyze :: "string \<Rightarrow> bool \<Rightarrow> page \<Rightarrow> page" where
  "handleAnalyze u rescan c =
     c\<lparr> analysisState :=
          \<lparr> result = None, isLoading = True, error = None, showEmailInput = True,
            currentUrl = Some u, fromCache = False, emailSubmitted = False,
            emailSentToAPI = False, screenshotUrl = None, analysisId = None,
            emailLoading = False \<rparr>,
        requests := requests c @ [FetchScreenshot u, FetchAnalyze u rescan],
        awaiting := awaiting c @ [ScreenshotRequest, AnalysisRequest] \<rparr>"

text \<open>Lines 70-81: the screenshot request settles.\<close>

definition screenshot_settled :: "screenshotResult fetched \<Rightarrow> page \<Rightarrow> page" where
  "screenshot_settled response c =
     (case response of
        Ok (Inr screenshotResult) \<Rightarrow>
          c\<lparr> analysisState := (analysisState c)
               \<lparr> screenshotUrl :=
                   (case screenshot screenshotResult of
                      None \<Rightarrow> None
                    | Some sh \<Rightarrow> if truthy_str (screenshot.url sh) then screenshot.url sh else None) \<rparr> \<rparr>
      | _ \<Rightarrow> c)"

text \<open>Lines 143-151: the address is posted and the answer awaited.\<close>

definition callEmailAPI :: "string \<Rightarrow> string \<Rightarrow> caller \<Rightarrow> page \<Rightarrow> page" where
  "callEmailAPI email aid who c =
     c\<lparr> requests := requests c @ [FetchEmail email aid],
        awaiting := awaiting c @ [EmailRequest who] \<rparr>"

text \<open>
  Lines 153-170: the email request has settled; the state is set the same way whether
  it succeeded or not.
\<close>

definition callEmailAPI_settled :: "unit fetched \<Rightarrow> page \<Rightarrow> page" where
  "callEmailAPI_settled response c =
     (case response of
        Ok _ \<Rightarrow>
          c\<lparr> analysisState := (analysisState c)\<lparr> emailSentToAPI := True, emailLoading := False \<rparr> \<rparr>
      | _ \<Rightarrow>
          c\<lparr> analysisState := (analysisState c)\<lparr> emailSentToAPI := True, emailLoading := False \<rparr> \<rparr>)"

text \<open>
  What runs when an email request settles: the rest of \<open>callEmailAPI\<close>, and for the
  flush of \<open>handleAnalyze\<close> line 117 after it, which empties the holder whatever it
  holds by then.
\<close>

definition email_settled :: "caller \<Rightarrow> unit fetched \<Rightarrow> page \<Rightarrow> page" where
  "email_settled who response c =
     (let c = callEmailAPI_settled response c in
      case who of
        HandleEmailSubmit \<Rightarrow> c
      | HandleAnalyze \<Rightarrow> c\<lparr> pendingEmailRef := None \<rparr>)"

text \<open>Lines 119-126: the catch of \<open>handleAnalyze\<close>.\<close>

definition analysis_failed :: "exn \<Rightarrow> page \<Rightarrow> page" where
  "analysis_failed e c =
     c\<lparr> analysisState := (analysisState c)
          \<lparr> result := None, isLoading := False,
            error := Some (case e of Error message \<Rightarrow> message
                                    | NonError \<Rightarrow> ''An unexpected error occurred'') \<rparr> \<rparr>"

text \<open>
  Lines 93-116: the analysis request settles. When an address is held and the answer
  carries an id, the address is posted and the answer awaited (line 116); the holder is
  emptied only when that request has settled (\<open>email_settled\<close>).
\<close>

definition analysis_settled :: "analyzeReply fetched \<Rightarrow> page \<Rightarrow> page" where
  "analysis_settled response c =
     (case response of
        Rejected e \<Rightarrow> analysis_failed e c
      | NotOk (Inl e) \<Rightarrow> analysis_failed e c
      | NotOk (Inr errorData) \<Rightarrow>
          analysis_failed
            (Error (if truthy_str errorData then the errorData else ''Analysis failed'')) c
      | Ok (Inl e) \<Rightarrow> analysis_failed e c
      | Ok (Inr res) \<Rightarrow>
          let analysisData = (case analysis res of
                                Some a \<Rightarrow> a
                              | None \<Rightarrow> analysisData.truncate res);
              prev = analysisState c;
              c = c\<lparr> analysisState := prev
                     \<lparr> result := Some analysisData,
                       isLoading := False,
                       error := None,
                       fromCache := (analyzeReply.fromCache res = Some True),
                       analysisId := (if truthy_str (analyzeReply.analysisId res)
                                      then analyzeReply.analysisId res else None),
                       screenshotUrl :=
                         (if truthy_str (analysisData.screenshotUrl analysisData)
                          then analysisData.screenshotUrl analysisData
                          else AnalysisState.screenshotUrl prev) \<rparr> \<rparr>
          in if truthy_str (pendingEmailRef c) \<and> truthy_str (analyzeReply.analysisId res) then
               callEmailAPI (the (pendingEmailRef c)) (the (analyzeReply.analysisId res))
                 HandleAnalyze c
             else c)"

text \<open>Lines 129-141.\<close>

definition handleEmailSubmit :: "string \<Rightarrow> page \<Rightarrow> page" where
  "handleEmailSubmit email c =
     (let c = c\<lparr> analysisState := (analysisState c)
                  \<lparr> emailLoading := True, emailSubmitted := True \<rparr> \<rparr>
      in if truthy_str (AnalysisState.analysisId (analysisState c)) then
           callEmailAPI email (the (AnalysisState.analysisId (analysisState c)))
             HandleEmailSubmit c
         else c\<lparr> pendingEmailRef := Some email \<rparr>)"

text \<open>Lines 173-188.\<close>

definition handleReset :: "page \<Rightarrow> page" where
  "handleReset c =
     c\<lparr> pendingEmailRef := None,
        analysisState :=
          \<lparr> result = None, isLoading = False, error = None, showEmailInput = False,
            currentUrl = None, fromCache = False, emailSubmitted = False,
            emailSentToAPI = False, screenshotUrl = None, analysisId = None,
            emailLoading = False \<rparr> \<rparr>"

text \<open>Lines 190-194.\<close>

definition handleForceRescan :: "page \<Rightarrow> page" where
  "handleForceRescan c =
     (if truthy_str (currentUrl (analysisState c))
      then handleAnalyze (the (currentUrl (analysisState c))) True c
      else c)"

text \<open>
  What can happen to the page: the user acts, or an awaited request settles. A
  settlement of a request that is not awaited cannot happen and changes nothing.
\<close>

datatype event =
    Analyze string bool
  | ScreenshotSettled "screenshotResult fetched"
  | AnalysisSettled "analyzeReply fetched"
  | EmailSubmit string
  | EmailSettled caller "unit fetched"
  | Reset
  | ForceRescan

definition settle :: "awaited \<Rightarrow> page \<Rightarrow> page option" where
  "settle a c =
     (if a \<in> set (awaiting c) then Some (c\<lparr> awaiting := remove1 a (awaiting c) \<rparr>)
      else None)"

fun handle :: "page \<Rightarrow> event \<Rightarrow> page" where
  "handle c (Analyze u rescan) = handleAnalyze u rescan c"
| "handle c (ScreenshotSettled response) =
     (case settle ScreenshotRequest c of
        None \<Rightarrow> c
      | Some c' \<Rightarrow> screenshot_settled response c')"
| "handle c (AnalysisSettled response) =
     (case settle AnalysisRequest c of
        None \<Rightarrow> c
      | Some c' \<Rightarrow> analysis_settled response c')"
| "handle c (EmailSubmit email) = handleEmailSubmit email c"
| "handle c (EmailSettled who response) =
     (case settle (EmailRequest who) c of
        None \<Rightarrow> c
      | Some c' \<Rightarrow> email_settled who response c')"
| "handle c Reset = handleReset c"
| "handle c ForceRescan = handleForceRescan c"

definition run_events :: "page \<Rightarrow> event list \<Rightarrow> page" where
  "run_events c evs = foldl handle c evs"

text \<open>The addresses posted to the email endpoint, with the id each was posted against.\<close>

definition dispatched :: "page \<Rightarrow> (string \<times> string) list" where
  "dispatched c =
     concat (map (\<lambda>q. case q of FetchEmail email aid \<Rightarrow> [(email, aid)] | _ \<Rightarrow> []) (requests c))"

section \<open>Notions of the specification and test doubles\<close>

text \<open>Which analyzer a call belongs to, by the name the component filter uses for it.\<close>

definition analyzer_of :: "effect \<Rightarrow> string option" where
  "analyzer_of ef =
     (case ef of
        CallPageSpeed _ \<Rightarrow> Some ''speed''
      | CallFontUsage _ \<Rightarrow> Some ''font''
      | CallImageOptimization _ \<Rightarrow> Some ''image''
      | CallCTA _ \<Rightarrow> Some ''cta''
      | _ \<Rightarrow> None)"

definition invoked :: "string \<Rightarrow> effect list \<Rightarrow> bool" where
  "invoked name tr \<longleftrightarrow> Some name \<in> set (map analyzer_of tr)"

text \<open>
  The specification's "scores of the analyzers that succeeded": an analyzer succeeded
  when the filter selected it and it resolved. Written from the specification, in the
  order speed, font, image, cta.
\<close>

definition success_scores :: "deps \<Rightarrow> jsval \<Rightarrow> string \<Rightarrow> int list" where
  "success_scores d c u =
     (if \<not> truthy c \<or> c = JStr ''all'' \<or> c = JStr ''speed'' \<or> c = JStr ''pageSpeed''
      then (case analyzePageSpeed d u of Inr r \<Rightarrow> [pageLoadSpeed.score r] | Inl _ \<Rightarrow> [])
      else [])
     @ (if \<not> truthy c \<or> c = JStr ''all'' \<or> c = JStr ''font''
        then (case analyzeFontUsage d u of Inr r \<Rightarrow> [fontUsage.score r] | Inl _ \<Rightarrow> [])
        else [])
     @ (if \<not> truthy c \<or> c = JStr ''all'' \<or> c = JStr ''image''
        then (case analyzeImageOptimization d u of
                Inr r \<Rightarrow> [imageOptimization.score r] | Inl _ \<Rightarrow> [])
        else [])
     @ (if \<not> truthy c \<or> c = JStr ''all'' \<or> c = JStr ''cta''
        then (case analyzeCTA d u of Inr r \<Rightarrow> [ctaResult.score r] | Inl _ \<Rightarrow> [])
        else [])"

text \<open>
  A body whose two log lines do not throw: the URL converts to a string, and so does the
  component when it is truthy.
\<close>

definition loggable :: "body \<Rightarrow> bool" where
  "loggable b \<longleftrightarrow>
     stringifies (body.url b) \<and> (\<not> truthy (component b) \<or> stringifies (component b))"

text \<open>
  A rejection that no inner try catches: of the font or the image analyzer when the
  filter selects it, and in route.ts also of the browser launch or of
  \<^verbatim>\<open>browser.close()\<close> when the filter selects the CTA analyzer.
\<close>

definition rejection_escapes :: "deps \<Rightarrow> jsval \<Rightarrow> string \<Rightarrow> bool" where
  "rejection_escapes d c u \<longleftrightarrow>
     shouldRun c ''font'' \<and> isl (analyzeFontUsage d u)
     \<or> shouldRun c ''image'' \<and> isl (analyzeImageOptimization d u)"

definition rejection_escapes_route :: "deps \<Rightarrow> browser_api \<Rightarrow> jsval \<Rightarrow> string \<Rightarrow> bool" where
  "rejection_escapes_route d br c u \<longleftrightarrow>
     rejection_escapes d c u
     \<or> shouldRun c ''cta'' \<and> (puppeteer_launch br \<noteq> None \<or> browser_close br \<noteq> None)"

text \<open>The specification's round(mean), 0 for no score.\<close>

definition round_mean :: "int list \<Rightarrow> int" where
  "round_mean xs =
     (if xs = [] then 0 else round (real_of_int (sum_list xs) / real (length xs)))"


text \<open>
  Test doubles. The URL parser knows two addresses; the analyzers settle the same way for
  every address.
\<close>

definition stub_new_URL :: "jsval \<Rightarrow> URL option" where
  "stub_new_URL u =
     (if u = JStr ''https://example.com''
      then Some \<lparr> protocol = ''https:'', href = ''https://example.com/'' \<rparr>
      else if u = JStr ''ftp://example.com''
      then Some \<lparr> protocol = ''ftp:'', href = ''ftp://example.com/'' \<rparr>
      else None)"

definition stub_deps ::
  "exn + pageLoadSpeed \<Rightarrow> exn + fontUsage \<Rightarrow> exn + imageOptimization \<Rightarrow> exn + ctaResult
     \<Rightarrow> deps" where
  "stub_deps s f i c =
     \<lparr> new_URL = stub_new_URL, double_round_mean = (\<lambda>_. 0),
       analyzePageSpeed = (\<lambda>_. s), analyzeFontUsage = (\<lambda>_. f),
       analyzeImageOptimization = (\<lambda>_. i), analyzeCTA = (\<lambda>_. c) \<rparr>"

definition speed80 :: pageLoadSpeed where
  "speed80 = initial_pageLoadSpeed\<lparr> pageLoadSpeed.score := 80, grade := ''B'' \<rparr>"

definition font60 :: fontUsage where
  "font60 = initial_fontUsage\<lparr> fontUsage.score := 60 \<rparr>"

definition image90 :: imageOptimization where
  "image90 = initial_imageOptimization\<lparr> imageOptimization.score := 90 \<rparr>"

definition cta70 :: ctaResult where
  "cta70 =
     \<lparr> ctaResult.score = 70, ctas = [], primaryCTA = None, issues = [],
       recommendations = [] \<rparr>"

definition all_succeed :: deps where
  "all_succeed = stub_deps (Inr speed80) (Inr font60) (Inr image90) (Inr cta70)"

definition stub_browser :: browser_api where
  "stub_browser =
     \<lparr> puppeteer_launch = None, page_content = (\<lambda>_. Inr ''<html></html>''),
       page_close = None, browser_close = None \<rparr>"

definition example_body :: "jsval \<Rightarrow> jsval \<Rightarrow> body" where
  "example_body u c = \<lparr> body.url = u, component = c, forceRescan = JUndefined \<rparr>"

text \<open>Whether the provider tried the remote service, and whether it tried a local launch.\<close>

definition is_connect :: "provider_effect \<Rightarrow> bool" where
  "is_connect ef = (case ef of Connect _ \<Rightarrow> True | Launch _ _ \<Rightarrow> False)"

definition attempts_remote :: "provider_effect list \<Rightarrow> bool" where
  "attempts_remote effs = list_ex is_connect effs"

definition attempts_local :: "provider_effect list \<Rightarrow> bool" where
  "attempts_local effs = list_ex (\<lambda>ef. \<not> is_connect ef) effs"

text \<open>
  Test doubles for the provider: a platform whose remote service settles as given and
  whose local launch gives the handle 1, and two environments.
\<close>

definition stub_platform :: "exn + nat \<Rightarrow> nat platform" where
  "stub_platform connect_outcome =
     \<lparr> puppeteer_connect = (\<lambda>_. connect_outcome),
       puppeteer_core_launch = (\<lambda>_. Inr 1),
       import_puppeteer = Inr \<lparr> executablePath = Inr ''/usr/bin/chromium'' \<rparr>,
       encodeURIComponent = (\<lambda>_. ''%7B%22blockConsentModals%22%3Atrue%7D'') \<rparr>"

definition production_env :: process_env where
  "production_env = \<lparr> NODE_ENV = Some ''production'', BLESS_KEY = Some ''secret'' \<rparr>"

definition no_key_env :: process_env where
  "no_key_env = \<lparr> NODE_ENV = Some ''production'', BLESS_KEY = None \<rparr>"

definition default_options :: options where
  "default_options = \<lparr> forceBrowserless = None, blockConsentModals = None \<rparr>"

text \<open>
  A platform where puppeteer can be imported and \<^verbatim>\<open>executablePath()\<close> throws, as
  when no browser has been downloaded.
\<close>

definition no_browser_module :: puppeteer_module where
  "no_browser_module = \<lparr> executablePath = Inl (Error ''Could not find Chrome'') \<rparr>"

definition no_browser_platform :: "nat platform" where
  "no_browser_platform =
     \<lparr> puppeteer_connect = (\<lambda>_. Inr 0),
       puppeteer_core_launch = (\<lambda>_. Inr 1),
       import_puppeteer = Inr no_browser_module,
       encodeURIComponent = (\<lambda>_. ''%7B%22blockConsentModals%22%3Atrue%7D'') \<rparr>"

text \<open>
  The events that can reach the page while no analysis id exists yet and the analysis
  request is still in flight, and the address submitted last among a list of events.
\<close>

fun while_pending :: "event \<Rightarrow> bool" where
  "while_pending (EmailSubmit _) = True"
| "while_pending (ScreenshotSettled _) = True"
| "while_pending _ = False"

fun last_submitted :: "event list \<Rightarrow> string option" where
  "last_submitted [] = None"
| "last_submitted (EmailSubmit email # evs) =
     (case last_submitted evs of None \<Rightarrow> Some email | Some later \<Rightarrow> Some later)"
| "last_submitted (_ # evs) = last_submitted evs"

text \<open>
  Test doubles for the page: an answer of the analysis endpoint carrying a report with
  the given screenshot URL, cache flag and id; an answer of the screenshot endpoint;
  an email request that succeeds.
\<close>

definition reply :: "string option \<Rightarrow> bool option \<Rightarrow> string option \<Rightarrow> analyzeReply" where
  "reply shot cached aid =
     \<lparr> analysisData.screenshotUrl = None,
       analysis = Some \<lparr> analysisData.screenshotUrl = shot \<rparr>,
       fromCache = cached, analysisId = aid \<rparr>"

definition preview :: "string \<Rightarrow> screenshotResult fetched" where
  "preview u = Ok (Inr \<lparr> screenshot = Some \<lparr> screenshot.url = Some u \<rparr> \<rparr>)"

definition email_sent :: "unit fetched" where
  "email_sent = Ok (Inr ())"

section \<open>Properties of the analysis handlers\<close>

lemmas stub_defs =
  all_succeed_def stub_deps_def stub_new_URL_def speed80_def font60_def image90_def cta70_def
  example_body_def stub_browser_def

lemmas post_defs =
  POST_def POST_try_def validate_def speed_block_def font_block_def image_block_def
  cta_block_def shouldRun_def NextResponse_json_def success_response_def
  initial_analysisResult_def template_literal_def URL_constructor_def

subsection \<open>The score\<close>

lemma foldl_plus: "foldl (\<lambda>sum score. sum + score) a xs = a + sum_list (xs :: int list)"
  by (induction xs arbitrary: a) simp_all

lemma overallScore_of_round_mean:
  "list_all score_in_range xs \<Longrightarrow> length xs \<le> 4 \<Longrightarrow> overallScore_of d xs = round_mean xs"
  by (simp add: overallScore_of_def round_mean_def Math_round_def round_def foldl_plus)

lemma length_success_scores: "length (success_scores d c u) \<le> 4"
  by (simp add: success_scores_def split: sum.splits)

subsection \<open>What each block does to the calls, the scores and the report\<close>

lemma speed_block_trace:
  "trace (speed_block d c u r) =
     trace r @ (if \<not> truthy c \<or> c = JStr ''all'' \<or> c = JStr ''speed'' \<or> c = JStr ''pageSpeed''
                then [CallPageSpeed (href u)] else [])"
  by (auto simp: speed_block_def shouldRun_def Let_def split: sum.splits)

lemma speed_block_scores:
  "scores (speed_block d c u r) =
     scores r @ (if \<not> truthy c \<or> c = JStr ''all'' \<or> c = JStr ''speed'' \<or> c = JStr ''pageSpeed''
      then (case analyzePageSpeed d (href u) of Inr r \<Rightarrow> [pageLoadSpeed.score r] | Inl _ \<Rightarrow> []) else [])"
  by (auto simp: speed_block_def shouldRun_def Let_def split: sum.splits)

lemma font_block_Inr:
  "font_block d c u r = Inr r' \<Longrightarrow>
     trace r' = trace r @ (if \<not> truthy c \<or> c = JStr ''all'' \<or> c = JStr ''font'' then [CallFontUsage (href u)] else [])
   \<and> scores r' = scores r @ (if \<not> truthy c \<or> c = JStr ''all'' \<or> c = JStr ''font''
        then (case analyzeFontUsage d (href u) of Inr r \<Rightarrow> [fontUsage.score r] | Inl _ \<Rightarrow> []) else [])"
  by (auto simp: font_block_def shouldRun_def Let_def split: sum.splits if_splits)

lemma image_block_Inr:
  "image_block d c u r = Inr r' \<Longrightarrow>
     trace r' = trace r @ (if \<not> truthy c \<or> c = JStr ''all'' \<or> c = JStr ''image'' then [CallImageOptimization (href u)] else [])
   \<and> scores r' = scores r @ (if \<not> truthy c \<or> c = JStr ''all'' \<or> c = JStr ''image''
        then (case analyzeImageOptimization d (href u) of Inr r \<Rightarrow> [imageOptimization.score r] | Inl _ \<Rightarrow> []) else [])"
  by (auto simp: image_block_def shouldRun_def Let_def split: sum.splits if_splits)

lemma cta_block_trace_scores:
  "trace (cta_block d c u r) = trace r @ (if \<not> truthy c \<or> c = JStr ''all'' \<or> c = JStr ''cta'' then [CallCTA (href u)] else [])
   \<and> scores (cta_block d c u r) = scores r @ (if \<not> truthy c \<or> c = JStr ''all'' \<or> c = JStr ''cta''
        then (case analyzeCTA d (href u) of Inr r \<Rightarrow> [ctaResult.score r] | Inl _ \<Rightarrow> []) else [])"
  by (auto simp: cta_block_def shouldRun_def Let_def split: sum.splits if_splits)





lemma speed_block_frame:
  "\<exists>s. analysisResult (speed_block d c u r) = (analysisResult r)\<lparr> pageLoadSpeed := s \<rparr>"
  by (auto simp: speed_block_def Let_def split: sum.splits intro: exI[of _ "pageLoadSpeed (analysisResult r)"])

lemma font_block_frame:
  "font_block d c u r = Inr r' \<Longrightarrow> \<exists>s. analysisResult r' = (analysisResult r)\<lparr> fontUsage := s \<rparr>"
  by (auto simp: font_block_def Let_def split: sum.splits if_splits intro: exI[of _ "fontUsage (analysisResult r)"])

lemma image_block_frame:
  "image_block d c u r = Inr r' \<Longrightarrow> \<exists>s. analysisResult r' = (analysisResult r)\<lparr> imageOptimization := s \<rparr>"
  by (auto simp: image_block_def Let_def split: sum.splits if_splits intro: exI[of _ "imageOptimization (analysisResult r)"])

lemma cta_block_frame:
  "\<exists>s. analysisResult (cta_block d c u r) = (analysisResult r)\<lparr> ctaAnalysis := s \<rparr>"
  by (auto simp: cta_block_def Let_def split: sum.splits intro: exI[of _ "ctaAnalysis (analysisResult r)"])

lemma speed_block_skip:
  "truthy c \<Longrightarrow> c \<noteq> JStr ''all'' \<Longrightarrow> c \<noteq> JStr ''speed'' \<Longrightarrow> c \<noteq> JStr ''pageSpeed'' \<Longrightarrow> speed_block d c u r = r"
  by (simp add: speed_block_def shouldRun_def)

lemma font_block_skip:
  "truthy c \<Longrightarrow> c \<noteq> JStr ''all'' \<Longrightarrow> c \<noteq> JStr ''font'' \<Longrightarrow> font_block d c u r = Inr r"
  by (simp add: font_block_def shouldRun_def)

lemma image_block_skip:
  "truthy c \<Longrightarrow> c \<noteq> JStr ''all'' \<Longrightarrow> c \<noteq> JStr ''image'' \<Longrightarrow> image_block d c u r = Inr r"
  by (simp add: image_block_def shouldRun_def)

lemma cta_block_skip:
  "truthy c \<Longrightarrow> c \<noteq> JStr ''all'' \<Longrightarrow> c \<noteq> JStr ''cta'' \<Longrightarrow> cta_block d c u r = r"
  by (simp add: cta_block_def shouldRun_def)

lemma initial_fields:
  "analysisResult.url (initial_analysisResult u) = href u"
  "pageLoadSpeed (initial_analysisResult u) = initial_pageLoadSpeed"
  "fontUsage (initial_analysisResult u) = initial_fontUsage"
  "imageOptimization (initial_analysisResult u) = initial_imageOptimization"
  "ctaAnalysis (initial_analysisResult u) = initial_ctaAnalysis"
  by (simp_all add: initial_analysisResult_def)

subsection \<open>Runs of the handlers\<close>



lemma POST_try_unreadable: "POST_try d (Inl e) = Inl (e, [])"
  by (simp add: POST_try_def)

lemma POST_try_unloggable:
  "\<not> loggable b \<Longrightarrow> \<exists>e. POST_try d (Inr b) = Inl (e, [])"
  by (auto simp: POST_try_def loggable_def template_literal_def)

lemma POST_try_missing:
  "loggable b \<Longrightarrow> \<not> truthy (body.url b) \<Longrightarrow>
     POST_try d (Inr b)
       = Inr (NextResponse_json [(''error'', FStr ''URL is required'')] (Some 400), [])"
  by (auto simp: POST_try_def loggable_def template_literal_def)

lemma POST_try_invalid:
  "loggable b \<Longrightarrow> truthy (body.url b) \<Longrightarrow> validate d (body.url b) = None \<Longrightarrow>
     POST_try d (Inr b)
       = Inr (NextResponse_json [(''error'', FStr ''Invalid URL format'')] (Some 400), [])"
  by (auto simp: POST_try_def loggable_def template_literal_def)

lemma POST_try_valid:
  assumes "loggable b" "truthy (body.url b)" "validate d (body.url b) = Some u"
  shows "POST_try d (Inr b) =
     (case font_block d (component b) u
             (speed_block d (component b) u
                \<lparr> analysisResult = initial_analysisResult u, scores = [], trace = [] \<rparr>) of
        Inl thrown \<Rightarrow> Inl thrown
      | Inr r2 \<Rightarrow>
          (case image_block d (component b) u r2 of
             Inl thrown \<Rightarrow> Inl thrown
           | Inr r3 \<Rightarrow>
               Inr (success_response
                      ((analysisResult (cta_block d (component b) u r3))
                         \<lparr> overallScore :=
                             overallScore_of d (scores (cta_block d (component b) u r3)) \<rparr>),
                    trace (cta_block d (component b) u r3))))"
  using assms
  by (auto simp: POST_try_def loggable_def template_literal_def Let_def split: sum.splits)

lemma POST_route_try_unreadable: "POST_route_try d br (Inl e) = Inl (e, [])"
  by (simp add: POST_route_try_def)

lemma POST_route_try_unloggable:
  "\<not> loggable b \<Longrightarrow> \<exists>e. POST_route_try d br (Inr b) = Inl (e, [])"
  by (auto simp: POST_route_try_def loggable_def template_literal_def)

lemma POST_route_try_missing:
  "loggable b \<Longrightarrow> \<not> truthy (body.url b) \<Longrightarrow>
     POST_route_try d br (Inr b)
       = Inr (NextResponse_json [(''error'', FStr ''URL is required'')] (Some 400), [])"
  by (auto simp: POST_route_try_def loggable_def template_literal_def)

lemma POST_route_try_invalid:
  "loggable b \<Longrightarrow> truthy (body.url b) \<Longrightarrow> validate d (body.url b) = None \<Longrightarrow>
     POST_route_try d br (Inr b)
       = Inr (NextResponse_json [(''error'', FStr ''Invalid URL format'')] (Some 400), [])"
  by (auto simp: POST_route_try_def loggable_def template_literal_def)

lemma POST_route_try_valid:
  assumes "loggable b" "truthy (body.url b)" "validate d (body.url b) = Some u"
  shows "POST_route_try d br (Inr b) =
     (case font_block d (component b) u
             \<lparr> analysisResult = initial_analysisResult_route u, scores = [], trace = [] \<rparr> of
        Inl thrown \<Rightarrow> Inl thrown
      | Inr r1 \<Rightarrow>
          (case image_block d (component b) u r1 of
             Inl thrown \<Rightarrow> Inl thrown
           | Inr r2 \<Rightarrow>
               (case cta_block_route d br (component b) u r2 of
                  Inl thrown \<Rightarrow> Inl thrown
                | Inr r3 \<Rightarrow>
                    Inr (success_response
                           ((analysisResult r3)
                              \<lparr> overallScore := overallScore_of d (scores r3) \<rparr>),
                         trace r3))))"
  using assms
  by (auto simp: POST_route_try_def loggable_def template_literal_def Let_def split: sum.splits)

text \<open>What a run looks like when it answers 200.\<close>

lemma POST_200:
  assumes "status (fst (POST d (Inr b))) = 200"
  shows "\<exists>u r2 r3. loggable b \<and> truthy (body.url b) \<and> validate d (body.url b) = Some u
        \<and> font_block d (component b) u
             (speed_block d (component b) u \<lparr> analysisResult = initial_analysisResult u, scores = [], trace = [] \<rparr>) = Inr r2
        \<and> image_block d (component b) u r2 = Inr r3
        \<and> POST d (Inr b) =
            (success_response ((analysisResult (cta_block d (component b) u r3))
                     \<lparr> overallScore := overallScore_of d (scores (cta_block d (component b) u r3)) \<rparr>),
             trace (cta_block d (component b) u r3))"
proof (cases "loggable b")
  case False
  from POST_try_unloggable [OF False, of d] assms show ?thesis
    by (auto simp: POST_def NextResponse_json_def)
next
  case l: True
  show ?thesis
  proof (cases "truthy (body.url b)")
    case False
    from POST_try_missing [OF l False, of d] assms show ?thesis
      by (simp add: POST_def NextResponse_json_def)
  next
    case t: True
    show ?thesis
    proof (cases "validate d (body.url b)")
      case None
      from POST_try_invalid [OF l t None] assms show ?thesis
        by (simp add: POST_def NextResponse_json_def)
    next
      case (Some u)
      note v = POST_try_valid [OF l t Some]
      let ?r1 = "speed_block d (component b) u
                   \<lparr> analysisResult = initial_analysisResult u, scores = [], trace = [] \<rparr>"
      show ?thesis
      proof (cases "font_block d (component b) u ?r1")
        case (Inl a)
        with v assms show ?thesis
          by (cases a) (simp add: POST_def NextResponse_json_def)
      next
        case f: (Inr r2)
        show ?thesis
        proof (cases "image_block d (component b) u r2")
          case (Inl a)
          with v f assms show ?thesis
            by (cases a) (simp add: POST_def NextResponse_json_def)
        next
          case i: (Inr r3)
          from v f i have "POST d (Inr b) =
            (success_response ((analysisResult (cta_block d (component b) u r3))
                     \<lparr> overallScore := overallScore_of d (scores (cta_block d (component b) u r3)) \<rparr>),
             trace (cta_block d (component b) u r3))"
            by (simp add: POST_def)
          with l t Some f i show ?thesis by blast
        qed
      qed
    qed
  qed
qed



lemma invoked_append: "invoked n (xs @ ys) \<longleftrightarrow> invoked n xs \<or> invoked n ys"
  by (auto simp: invoked_def)

lemma invoked_simps:
  "invoked n [] = False"
  "invoked n [CallPageSpeed x] \<longleftrightarrow> n = ''speed''"
  "invoked n [CallFontUsage x] \<longleftrightarrow> n = ''font''"
  "invoked n [CallImageOptimization x] \<longleftrightarrow> n = ''image''"
  "invoked n [CallCTA x] \<longleftrightarrow> n = ''cta''"
  by (auto simp: invoked_def analyzer_of_def)




text \<open>
  The rejection of the font or image analyzer leaves the handler's try body: the run
  answers 500, whatever the other analyzers did or would have done.
\<close>

lemma font_rejection_escapes:
  assumes "loggable b" "truthy (body.url b)" "validate d (body.url b) = Some u"
    "shouldRun (component b) ''font''" "analyzeFontUsage d (href u) = Inl e"
  shows "fst (POST d (Inr b)) =
           \<lparr> json = [(''error'', FStr ''Internal server error'')], status = 500 \<rparr>"
  using assms(4,5) POST_try_valid [OF assms(1,2,3)]
  by (simp add: POST_def font_block_def Let_def NextResponse_json_def)

text \<open>
  When neither the font nor the image analyzer rejects, the run answers 200: what the
  speed and CTA analyzers throw is caught in their blocks.
\<close>

lemma speed_cta_rejections_caught:
  assumes "loggable b" "truthy (body.url b)" "validate d (body.url b) = Some u"
    "analyzeFontUsage d (href u) = Inr f" "analyzeImageOptimization d (href u) = Inr i"
  shows "status (fst (POST d (Inr b))) = 200"
  using assms(4,5) POST_try_valid [OF assms(1,2,3)]
  by (simp add: POST_def font_block_def image_block_def Let_def
        NextResponse_json_def success_response_def)

lemma run_summary:
  assumes ok: "status (fst (POST d (Inr b))) = 200"
  shows "\<exists>report.
      json (fst (POST d (Inr b))) =
        [(''success'', FBool True), (''analysis'', FAnalysis report),
         (''message'', FStr ''Analysis completed successfully.'')]
    \<and> (invoked ''speed'' (snd (POST d (Inr b))) \<longleftrightarrow>
         \<not> truthy (component b) \<or> component b = JStr ''all'' \<or> component b = JStr ''speed''
           \<or> component b = JStr ''pageSpeed'')
    \<and> (invoked ''font'' (snd (POST d (Inr b))) \<longleftrightarrow>
         \<not> truthy (component b) \<or> component b = JStr ''all'' \<or> component b = JStr ''font'')
    \<and> (invoked ''image'' (snd (POST d (Inr b))) \<longleftrightarrow>
         \<not> truthy (component b) \<or> component b = JStr ''all'' \<or> component b = JStr ''image'')
    \<and> (invoked ''cta'' (snd (POST d (Inr b))) \<longleftrightarrow>
         \<not> truthy (component b) \<or> component b = JStr ''all'' \<or> component b = JStr ''cta'')
    \<and> (\<not> invoked ''speed'' (snd (POST d (Inr b))) \<longrightarrow> pageLoadSpeed report = initial_pageLoadSpeed)
    \<and> (\<not> invoked ''font'' (snd (POST d (Inr b))) \<longrightarrow> fontUsage report = initial_fontUsage)
    \<and> (\<not> invoked ''image'' (snd (POST d (Inr b))) \<longrightarrow> imageOptimization report = initial_imageOptimization)
    \<and> (\<not> invoked ''cta'' (snd (POST d (Inr b))) \<longrightarrow> ctaAnalysis report = initial_ctaAnalysis)
    \<and> (list_all score_in_range (success_scores d (component b) (analysisResult.url report)) \<longrightarrow>
         overallScore report
           = round_mean (success_scores d (component b) (analysisResult.url report)))
    \<and> (snd (POST d (Inr b)) = [] \<longrightarrow>
         overallScore report = 0 \<and> pageLoadSpeed report = initial_pageLoadSpeed
         \<and> fontUsage report = initial_fontUsage
         \<and> imageOptimization report = initial_imageOptimization
         \<and> ctaAnalysis report = initial_ctaAnalysis)"
proof -
  let ?c = "component b"
  from POST_200 [OF ok] obtain u r2 r3 where
    v: "validate d (body.url b) = Some u" and
    f: "font_block d ?c u (speed_block d ?c u \<lparr> analysisResult = initial_analysisResult u, scores = [], trace = [] \<rparr>) = Inr r2" and
    i: "image_block d ?c u r2 = Inr r3" and
    p: "POST d (Inr b) =
            (success_response ((analysisResult (cta_block d ?c u r3))
                     \<lparr> overallScore := overallScore_of d (scores (cta_block d ?c u r3)) \<rparr>),
             trace (cta_block d ?c u r3))"
    by blast
  let ?r0 = "\<lparr> analysisResult = initial_analysisResult u, scores = [], trace = [] \<rparr>"
  let ?r1 = "speed_block d ?c u ?r0"
  let ?r4 = "cta_block d ?c u r3"
  let ?report = "(analysisResult ?r4)\<lparr> overallScore := overallScore_of d (scores ?r4) \<rparr>"
  have tr: "trace ?r4 =
      (if \<not> truthy ?c \<or> ?c = JStr ''all'' \<or> ?c = JStr ''speed'' \<or> ?c = JStr ''pageSpeed''
                then [CallPageSpeed (href u)] else [])
    @ (if \<not> truthy ?c \<or> ?c = JStr ''all'' \<or> ?c = JStr ''font'' then [CallFontUsage (href u)] else [])
    @ (if \<not> truthy ?c \<or> ?c = JStr ''all'' \<or> ?c = JStr ''image'' then [CallImageOptimization (href u)] else [])
    @ (if \<not> truthy ?c \<or> ?c = JStr ''all'' \<or> ?c = JStr ''cta'' then [CallCTA (href u)] else [])"
    using font_block_Inr [OF f] image_block_Inr [OF i] cta_block_trace_scores [of d ?c u r3]
      speed_block_trace [of d ?c u ?r0]
    by simp
  have sc: "scores ?r4 = success_scores d ?c (href u)"
    using font_block_Inr [OF f] image_block_Inr [OF i] cta_block_trace_scores [of d ?c u r3]
      speed_block_scores [of d ?c u ?r0]
    by (simp add: success_scores_def)
  obtain s1 where s1: "analysisResult ?r1 = (initial_analysisResult u)\<lparr> pageLoadSpeed := s1 \<rparr>"
    using speed_block_frame [of d ?c u ?r0] by auto
  obtain s2 where s2: "analysisResult r2 = (analysisResult ?r1)\<lparr> fontUsage := s2 \<rparr>"
    using font_block_frame [OF f] by auto
  obtain s3 where s3: "analysisResult r3 = (analysisResult r2)\<lparr> imageOptimization := s3 \<rparr>"
    using image_block_frame [OF i] by auto
  obtain s4 where s4: "analysisResult ?r4 = (analysisResult r3)\<lparr> ctaAnalysis := s4 \<rparr>"
    using cta_block_frame [of d ?c u r3] by auto
  have url: "analysisResult.url ?report = href u"
    by (simp add: s1 s2 s3 s4 initial_fields)
  have a: "json (fst (POST d (Inr b))) =
        [(''success'', FBool True), (''analysis'', FAnalysis ?report),
         (''message'', FStr ''Analysis completed successfully.'')]"
    by (simp add: p success_response_def NextResponse_json_def)
  have sp: "invoked ''speed'' (snd (POST d (Inr b))) \<longleftrightarrow>
         \<not> truthy ?c \<or> ?c = JStr ''all'' \<or> ?c = JStr ''speed'' \<or> ?c = JStr ''pageSpeed''"
    by (simp add: p tr invoked_append invoked_simps)
  have fo: "invoked ''font'' (snd (POST d (Inr b))) \<longleftrightarrow>
         \<not> truthy ?c \<or> ?c = JStr ''all'' \<or> ?c = JStr ''font''"
    by (simp add: p tr invoked_append invoked_simps)
  have im: "invoked ''image'' (snd (POST d (Inr b))) \<longleftrightarrow>
         \<not> truthy ?c \<or> ?c = JStr ''all'' \<or> ?c = JStr ''image''"
    by (simp add: p tr invoked_append invoked_simps)
  have ct: "invoked ''cta'' (snd (POST d (Inr b))) \<longleftrightarrow>
         \<not> truthy ?c \<or> ?c = JStr ''all'' \<or> ?c = JStr ''cta''"
    by (simp add: p tr invoked_append invoked_simps)
  have sp_chain: "pageLoadSpeed ?report = pageLoadSpeed (analysisResult ?r1)"
    by (simp add: s2 s3 s4)
  have fo_chain: "fontUsage ?report = fontUsage (analysisResult r2)"
    by (simp add: s3 s4)
  have fo_init: "fontUsage (analysisResult ?r1) = initial_fontUsage"
    by (simp add: s1 initial_fields)
  have im_chain: "imageOptimization ?report = imageOptimization (analysisResult r3)"
    by (simp add: s4)
  have im_init: "imageOptimization (analysisResult r2) = initial_imageOptimization"
    by (simp add: s1 s2 initial_fields)
  have ct_init: "ctaAnalysis (analysisResult r3) = initial_ctaAnalysis"
    by (simp add: s1 s2 s3 initial_fields)
  have sp0: "\<not> invoked ''speed'' (snd (POST d (Inr b))) \<longrightarrow> pageLoadSpeed ?report = initial_pageLoadSpeed"
  proof
    assume "\<not> invoked ''speed'' (snd (POST d (Inr b)))"
    with sp have "?r1 = ?r0" by (simp add: speed_block_skip)
    with sp_chain show "pageLoadSpeed ?report = initial_pageLoadSpeed"
      by (simp add: initial_fields)
  qed
  have fo0: "\<not> invoked ''font'' (snd (POST d (Inr b))) \<longrightarrow> fontUsage ?report = initial_fontUsage"
  proof
    assume "\<not> invoked ''font'' (snd (POST d (Inr b)))"
    with fo f have "r2 = ?r1" by (simp add: font_block_skip)
    with fo_chain fo_init show "fontUsage ?report = initial_fontUsage"
      by simp
  qed
  have im0: "\<not> invoked ''image'' (snd (POST d (Inr b))) \<longrightarrow> imageOptimization ?report = initial_imageOptimization"
  proof
    assume "\<not> invoked ''image'' (snd (POST d (Inr b)))"
    with im i have "r3 = r2" by (simp add: image_block_skip)
    with im_chain im_init show "imageOptimization ?report = initial_imageOptimization"
      by simp
  qed
  have ct0: "\<not> invoked ''cta'' (snd (POST d (Inr b))) \<longrightarrow> ctaAnalysis ?report = initial_ctaAnalysis"
  proof
    assume "\<not> invoked ''cta'' (snd (POST d (Inr b)))"
    with ct have "?r4 = r3" by (simp add: cta_block_skip)
    with ct_init show "ctaAnalysis ?report = initial_ctaAnalysis"
      by simp
  qed
  have os: "list_all score_in_range (success_scores d ?c (analysisResult.url ?report)) \<longrightarrow>
      overallScore ?report = round_mean (success_scores d ?c (analysisResult.url ?report))"
    unfolding url
    by (simp add: sc overallScore_of_round_mean [OF _ length_success_scores])
  have none: "snd (POST d (Inr b)) = [] \<longrightarrow>
         overallScore ?report = 0 \<and> pageLoadSpeed ?report = initial_pageLoadSpeed
         \<and> fontUsage ?report = initial_fontUsage
         \<and> imageOptimization ?report = initial_imageOptimization
         \<and> ctaAnalysis ?report = initial_ctaAnalysis"
  proof
    assume e: "snd (POST d (Inr b)) = []"
    then have n: "\<not> invoked ''speed'' (snd (POST d (Inr b)))" "\<not> invoked ''font'' (snd (POST d (Inr b)))"
      "\<not> invoked ''image'' (snd (POST d (Inr b)))" "\<not> invoked ''cta'' (snd (POST d (Inr b)))"
      by (simp_all add: invoked_simps)
    from n sp fo im ct have "success_scores d ?c (href u) = []"
      by (simp add: success_scores_def)
    then have "overallScore ?report = 0"
      by (simp add: sc overallScore_of_def)
    with n sp0 fo0 im0 ct0 show "overallScore ?report = 0 \<and> pageLoadSpeed ?report = initial_pageLoadSpeed
         \<and> fontUsage ?report = initial_fontUsage
         \<and> imageOptimization ?report = initial_imageOptimization
         \<and> ctaAnalysis ?report = initial_ctaAnalysis"
      by blast
  qed
  show ?thesis
    by (rule exI [of _ ?report], intro conjI) (fact a sp fo im ct sp0 fo0 im0 ct0 os none)+
qed

lemma report_score_round_mean:
  assumes "status (fst (POST d (Inr b))) = 200"
  shows "\<exists>report.
      json (fst (POST d (Inr b))) =
        [(''success'', FBool True), (''analysis'', FAnalysis report),
         (''message'', FStr ''Analysis completed successfully.'')]
    \<and> (list_all score_in_range (success_scores d (component b) (analysisResult.url report)) \<longrightarrow>
         overallScore report
           = round_mean (success_scores d (component b) (analysisResult.url report)))"
  using run_summary [OF assms] by blast


subsection \<open>Which requests are answered how\<close>

lemma font_block_isl:
  "isl (font_block d c u r) \<longleftrightarrow> shouldRun c ''font'' \<and> isl (analyzeFontUsage d (href u))"
  by (auto simp: font_block_def Let_def split: sum.splits)

lemma image_block_isl:
  "isl (image_block d c u r)
     \<longleftrightarrow> shouldRun c ''image'' \<and> isl (analyzeImageOptimization d (href u))"
  by (auto simp: image_block_def Let_def split: sum.splits)

lemma cta_block_route_isl:
  "isl (cta_block_route d br c u r)
     \<longleftrightarrow> shouldRun c ''cta'' \<and> (puppeteer_launch br \<noteq> None \<or> browser_close br \<noteq> None)"
  by (auto simp: cta_block_route_def Let_def split: option.splits)

lemma speed_block_url:
  "analysisResult.url (analysisResult (speed_block d c u r)) = analysisResult.url (analysisResult r)"
  using speed_block_frame [of d c u r] by auto

lemma font_block_url:
  "font_block d c u r = Inr r' \<Longrightarrow>
     analysisResult.url (analysisResult r') = analysisResult.url (analysisResult r)"
  by (auto dest: font_block_frame)

lemma image_block_url:
  "image_block d c u r = Inr r' \<Longrightarrow>
     analysisResult.url (analysisResult r') = analysisResult.url (analysisResult r)"
  by (auto dest: image_block_frame)

lemma cta_block_url:
  "analysisResult.url (analysisResult (cta_block d c u r)) = analysisResult.url (analysisResult r)"
  using cta_block_frame [of d c u r] by auto

lemma cta_block_route_url:
  "cta_block_route d br c u r = Inr r' \<Longrightarrow>
     analysisResult.url (analysisResult r') = analysisResult.url (analysisResult r)"
  by (auto simp: cta_block_route_def cta_try_route_def Let_def
        split: if_splits option.splits sum.splits)

lemma POST_unreadable:
  "POST d (Inl e)
     = (\<lparr> json = [(''error'', FStr ''Internal server error'')], status = 500 \<rparr>, [])"
  by (simp add: POST_def POST_try_unreadable NextResponse_json_def)

lemma POST_unloggable:
  "\<not> loggable b \<Longrightarrow>
     POST d (Inr b)
       = (\<lparr> json = [(''error'', FStr ''Internal server error'')], status = 500 \<rparr>, [])"
  using POST_try_unloggable [of b d] by (auto simp: POST_def NextResponse_json_def)

lemma POST_missing_url:
  "loggable b \<Longrightarrow> \<not> truthy (body.url b) \<Longrightarrow>
     POST d (Inr b) = (\<lparr> json = [(''error'', FStr ''URL is required'')], status = 400 \<rparr>, [])"
  by (simp add: POST_def POST_try_missing NextResponse_json_def)

lemma POST_invalid_url:
  "loggable b \<Longrightarrow> truthy (body.url b) \<Longrightarrow> validate d (body.url b) = None \<Longrightarrow>
     POST d (Inr b)
       = (\<lparr> json = [(''error'', FStr ''Invalid URL format'')], status = 400 \<rparr>, [])"
  by (simp add: POST_def POST_try_invalid NextResponse_json_def)

lemma POST_escaped:
  assumes "loggable b" "truthy (body.url b)" "validate d (body.url b) = Some u"
    "rejection_escapes d (component b) (href u)"
  shows "fst (POST d (Inr b))
           = \<lparr> json = [(''error'', FStr ''Internal server error'')], status = 500 \<rparr>"
proof -
  let ?c = "component b"
  let ?r1 = "speed_block d ?c u
               \<lparr> analysisResult = initial_analysisResult u, scores = [], trace = [] \<rparr>"
  note v = POST_try_valid [OF assms(1,2,3)]
  show ?thesis
  proof (cases "font_block d ?c u ?r1")
    case (Inl a)
    with v show ?thesis
      by (cases a) (simp add: POST_def NextResponse_json_def)
  next
    case f: (Inr r2)
    with font_block_isl [of d ?c u ?r1] assms(4)
    have "shouldRun ?c ''image'' \<and> isl (analyzeImageOptimization d (href u))"
      by (auto simp: rejection_escapes_def)
    with image_block_isl [of d ?c u r2] obtain a where "image_block d ?c u r2 = Inl a"
      by (cases "image_block d ?c u r2") auto
    with v f show ?thesis
      by (cases a) (simp add: POST_def NextResponse_json_def)
  qed
qed

lemma POST_answered:
  assumes "loggable b" "truthy (body.url b)" "validate d (body.url b) = Some u"
    "\<not> rejection_escapes d (component b) (href u)"
  shows "\<exists>report. fst (POST d (Inr b)) =
           \<lparr> json = [(''success'', FBool True), (''analysis'', FAnalysis report),
                     (''message'', FStr ''Analysis completed successfully.'')],
             status = 200 \<rparr>
         \<and> analysisResult.url report = href u"
proof -
  let ?c = "component b"
  let ?r0 = "\<lparr> analysisResult = initial_analysisResult u, scores = [], trace = [] \<rparr>"
  let ?r1 = "speed_block d ?c u ?r0"
  note v = POST_try_valid [OF assms(1,2,3)]
  from font_block_isl [of d ?c u ?r1] assms(4) obtain r2
    where f: "font_block d ?c u ?r1 = Inr r2"
    by (cases "font_block d ?c u ?r1") (auto simp: rejection_escapes_def)
  from image_block_isl [of d ?c u r2] assms(4) obtain r3
    where i: "image_block d ?c u r2 = Inr r3"
    by (cases "image_block d ?c u r2") (auto simp: rejection_escapes_def)
  let ?r4 = "cta_block d ?c u r3"
  let ?report = "(analysisResult ?r4)\<lparr> overallScore := overallScore_of d (scores ?r4) \<rparr>"
  have "analysisResult.url ?report = href u"
    by (simp add: cta_block_url image_block_url [OF i] font_block_url [OF f] speed_block_url
          initial_fields)
  moreover from v f i have "fst (POST d (Inr b)) =
           \<lparr> json = [(''success'', FBool True), (''analysis'', FAnalysis ?report),
                     (''message'', FStr ''Analysis completed successfully.'')],
             status = 200 \<rparr>"
    by (simp add: POST_def success_response_def NextResponse_json_def)
  ultimately show ?thesis by blast
qed

lemma POST_route_unreadable:
  "POST_route d br (Inl e)
     = (\<lparr> json = [(''error'', FStr ''Internal server error'')], status = 500 \<rparr>, [])"
  by (simp add: POST_route_def POST_route_try_unreadable NextResponse_json_def)

lemma POST_route_unloggable:
  "\<not> loggable b \<Longrightarrow>
     POST_route d br (Inr b)
       = (\<lparr> json = [(''error'', FStr ''Internal server error'')], status = 500 \<rparr>, [])"
  using POST_route_try_unloggable [of b d br] by (auto simp: POST_route_def NextResponse_json_def)

lemma POST_route_missing_url:
  "loggable b \<Longrightarrow> \<not> truthy (body.url b) \<Longrightarrow>
     POST_route d br (Inr b)
       = (\<lparr> json = [(''error'', FStr ''URL is required'')], status = 400 \<rparr>, [])"
  by (simp add: POST_route_def POST_route_try_missing NextResponse_json_def)

lemma POST_route_invalid_url:
  "loggable b \<Longrightarrow> truthy (body.url b) \<Longrightarrow> validate d (body.url b) = None \<Longrightarrow>
     POST_route d br (Inr b)
       = (\<lparr> json = [(''error'', FStr ''Invalid URL format'')], status = 400 \<rparr>, [])"
  by (simp add: POST_route_def POST_route_try_invalid NextResponse_json_def)

lemma POST_route_escaped:
  assumes "loggable b" "truthy (body.url b)" "validate d (body.url b) = Some u"
    "rejection_escapes_route d br (component b) (href u)"
  shows "fst (POST_route d br (Inr b))
           = \<lparr> json = [(''error'', FStr ''Internal server error'')], status = 500 \<rparr>"
proof -
  let ?c = "component b"
  let ?r0 = "\<lparr> analysisResult = initial_analysisResult_route u, scores = [], trace = [] \<rparr>"
  note v = POST_route_try_valid [OF assms(1,2,3)]
  show ?thesis
  proof (cases "font_block d ?c u ?r0")
    case (Inl a)
    with v show ?thesis
      by (cases a) (simp add: POST_route_def NextResponse_json_def)
  next
    case f: (Inr r1)
    show ?thesis
    proof (cases "image_block d ?c u r1")
      case (Inl a)
      with v f show ?thesis
        by (cases a) (simp add: POST_route_def NextResponse_json_def)
    next
      case i: (Inr r2)
      from f i font_block_isl [of d ?c u ?r0] image_block_isl [of d ?c u r1] assms(4)
      have "shouldRun ?c ''cta'' \<and> (puppeteer_launch br \<noteq> None \<or> browser_close br \<noteq> None)"
        by (auto simp: rejection_escapes_route_def rejection_escapes_def)
      with cta_block_route_isl [of d br ?c u r2] obtain a
        where "cta_block_route d br ?c u r2 = Inl a"
        by (cases "cta_block_route d br ?c u r2") auto
      with v f i show ?thesis
        by (cases a) (simp add: POST_route_def NextResponse_json_def)
    qed
  qed
qed

lemma POST_route_answered:
  assumes "loggable b" "truthy (body.url b)" "validate d (body.url b) = Some u"
    "\<not> rejection_escapes_route d br (component b) (href u)"
  shows "\<exists>report. fst (POST_route d br (Inr b)) =
           \<lparr> json = [(''success'', FBool True), (''analysis'', FAnalysis report),
                     (''message'', FStr ''Analysis completed successfully.'')],
             status = 200 \<rparr>
         \<and> analysisResult.url report = href u"
proof -
  let ?c = "component b"
  let ?r0 = "\<lparr> analysisResult = initial_analysisResult_route u, scores = [], trace = [] \<rparr>"
  note v = POST_route_try_valid [OF assms(1,2,3)]
  from font_block_isl [of d ?c u ?r0] assms(4) obtain r1
    where f: "font_block d ?c u ?r0 = Inr r1"
    by (cases "font_block d ?c u ?r0")
       (auto simp: rejection_escapes_route_def rejection_escapes_def)
  from image_block_isl [of d ?c u r1] assms(4) obtain r2
    where i: "image_block d ?c u r1 = Inr r2"
    by (cases "image_block d ?c u r1")
       (auto simp: rejection_escapes_route_def rejection_escapes_def)
  from cta_block_route_isl [of d br ?c u r2] assms(4) obtain r3
    where c: "cta_block_route d br ?c u r2 = Inr r3"
    by (cases "cta_block_route d br ?c u r2") (auto simp: rejection_escapes_route_def)
  let ?report = "(analysisResult r3)\<lparr> overallScore := overallScore_of d (scores r3) \<rparr>"
  have "analysisResult.url ?report = href u"
    by (simp add: cta_block_route_url [OF c] image_block_url [OF i] font_block_url [OF f]
          initial_analysisResult_route_def)
  moreover from v f i c have "fst (POST_route d br (Inr b)) =
           \<lparr> json = [(''success'', FBool True), (''analysis'', FAnalysis ?report),
                     (''message'', FStr ''Analysis completed successfully.'')],
             status = 200 \<rparr>"
    by (simp add: POST_route_def success_response_def NextResponse_json_def)
  ultimately show ?thesis by blast
qed

subsection \<open>Claims about the analysis handlers\<close>

text \<open>
  C1 (failure isolation). The claim asks that an analyzer that throws yields a failed
  outcome for itself only, the other analyzers still run and a report is returned. The
  font block has no try of its own: with no component filter, the speed, image and CTA
  analyzers resolving and the font analyzer rejecting, the handler answers 500 with no
  report, and the image and CTA analyzers are never called.
\<close>

theorem font_rejection_aborts_run:
  "POST (stub_deps (Inr speed80) (Inl (Error ''boom'')) (Inr image90) (Inr cta70))
        (Inr (example_body (JStr ''https://example.com'') JUndefined))
   = (\<lparr> json = [(''error'', FStr ''Internal server error'')], status = 500 \<rparr>,
      [CallPageSpeed ''https://example.com/'', CallFontUsage ''https://example.com/''])"
  by (simp add: stub_defs post_defs)

text \<open>
  C2 (overall score). The score of every returned report is the rounded mean of the
  scores of the analyzers that succeeded, the scores being within 0..100
  (\<open>report_score_round_mean\<close>), and 80, 60, 90, 70 give 75
  (\<open>overallScore_example\<close>). The claim also asks that a report is still returned when no
  analyzer succeeded: with component "all" and all four analyzers rejecting, the handler
  answers 500 with no report.
\<close>

theorem all_rejections_abort_run:
  "POST (stub_deps (Inl (Error ''boom'')) (Inl (Error ''boom'')) (Inl (Error ''boom''))
           (Inl (Error ''boom'')))
        (Inr (example_body (JStr ''https://example.com'') (JStr ''all'')))
   = (\<lparr> json = [(''error'', FStr ''Internal server error'')], status = 500 \<rparr>,
      [CallPageSpeed ''https://example.com/'', CallFontUsage ''https://example.com/''])"
  by (simp add: stub_defs post_defs)

lemma overallScore_example:
  "\<exists>report.
     fst (POST all_succeed (Inr (example_body (JStr ''https://example.com'') (JStr ''all''))))
       = success_response report
     \<and> overallScore report = 75"
  by (simp add: stub_defs post_defs overallScore_of_def score_in_range_def Math_round_def)

text \<open>
  In route.ts the CTA score is pushed before \<^verbatim>\<open>page.close()\<close> is awaited: when that
  call rejects, the report shows the failed CTA section while the CTA score, 70 here
  beside 60 and 90, is still averaged.
\<close>

lemma page_close_rejection_keeps_score:
  "\<exists>report.
     fst (POST_route all_succeed (stub_browser\<lparr> page_close := Some (Error ''closed'') \<rparr>)
            (Inr (example_body (JStr ''https://example.com'') JUndefined)))
       = success_response report
     \<and> ctaAnalysis report = failed_ctaAnalysis
     \<and> overallScore report = 73"
  by (simp add: stub_defs POST_route_def POST_route_try_def validate_def font_block_def
        image_block_def cta_block_route_def cta_try_route_def shouldRun_def
        NextResponse_json_def success_response_def initial_analysisResult_route_def
        template_literal_def URL_constructor_def overallScore_of_def score_in_range_def
        Math_round_def)




text \<open>
  C4 (response shape), as stated: a successful answer carries a \<open>fromCache\<close> flag and
  a fresh \<open>analysisId\<close>. It fails: the answer to a successful submission has neither.
\<close>

theorem response_fields_counterexample:
  "status (fst (POST all_succeed
                  (Inr (example_body (JStr ''https://example.com'') JUndefined)))) = 200
   \<and> map_of (json (fst (POST all_succeed
                  (Inr (example_body (JStr ''https://example.com'') JUndefined)))))
        ''analysisId'' = None
   \<and> map_of (json (fst (POST all_succeed
                  (Inr (example_body (JStr ''https://example.com'') JUndefined)))))
        ''fromCache'' = None"
  by (simp add: stub_defs post_defs)

text \<open>
  C4, amended. A submission succeeds when its body is read, its URL and component can be
  logged, its URL is valid and no rejection escapes an inner try; the answer then has
  status 200 and consists of success true, the report for the normalised URL and the
  message "Analysis completed successfully.", and of nothing else: no cache flag, no id.
  On validation failure, the URL missing or not valid, the answer is an error object with
  status 400. On internal failure, the body unreadable, a log line throwing or a
  rejection escaping, the answer is the error object "Internal server error" with
  status 500. This holds for both handlers.
\<close>

theorem response_shape:
  "fst (POST d (Inl e))
     = \<lparr> json = [(''error'', FStr ''Internal server error'')], status = 500 \<rparr>
   \<and> (\<not> loggable b \<longrightarrow>
        fst (POST d (Inr b))
          = \<lparr> json = [(''error'', FStr ''Internal server error'')], status = 500 \<rparr>)
   \<and> (loggable b \<and> \<not> truthy (body.url b) \<longrightarrow>
        fst (POST d (Inr b))
          = \<lparr> json = [(''error'', FStr ''URL is required'')], status = 400 \<rparr>)
   \<and> (loggable b \<and> truthy (body.url b) \<and> validate d (body.url b) = None \<longrightarrow>
        fst (POST d (Inr b))
          = \<lparr> json = [(''error'', FStr ''Invalid URL format'')], status = 400 \<rparr>)
   \<and> (loggable b \<and> truthy (body.url b) \<and> validate d (body.url b) = Some u
        \<and> rejection_escapes d (component b) (href u) \<longrightarrow>
        fst (POST d (Inr b))
          = \<lparr> json = [(''error'', FStr ''Internal server error'')], status = 500 \<rparr>)
   \<and> (loggable b \<and> truthy (body.url b) \<and> validate d (body.url b) = Some u
        \<and> \<not> rejection_escapes d (component b) (href u) \<longrightarrow>
        (\<exists>report. fst (POST d (Inr b)) =
           \<lparr> json = [(''success'', FBool True), (''analysis'', FAnalysis report),
                     (''message'', FStr ''Analysis completed successfully.'')],
             status = 200 \<rparr>
         \<and> analysisResult.url report = href u))
   \<and> fst (POST_route d br (Inl e))
     = \<lparr> json = [(''error'', FStr ''Internal server error'')], status = 500 \<rparr>
   \<and> (\<not> loggable b \<longrightarrow>
        fst (POST_route d br (Inr b))
          = \<lparr> json = [(''error'', FStr ''Internal server error'')], status = 500 \<rparr>)
   \<and> (loggable b \<and> \<not> truthy (body.url b) \<longrightarrow>
        fst (POST_route d br (Inr b))
          = \<lparr> json = [(''error'', FStr ''URL is required'')], status = 400 \<rparr>)
   \<and> (loggable b \<and> truthy (body.url b) \<and> validate d (body.url b) = None \<longrightarrow>
        fst (POST_route d br (Inr b))
          = \<lparr> json = [(''error'', FStr ''Invalid URL format'')], status = 400 \<rparr>)
   \<and> (loggable b \<and> truthy (body.url b) \<and> validate d (body.url b) = Some u
        \<and> rejection_escapes_route d br (component b) (href u) \<longrightarrow>
        fst (POST_route d br (Inr b))
          = \<lparr> json = [(''error'', FStr ''Internal server error'')], status = 500 \<rparr>)
   \<and> (loggable b \<and> truthy (body.url b) \<and> validate d (body.url b) = Some u
        \<and> \<not> rejection_escapes_route d br (component b) (href u) \<longrightarrow>
        (\<exists>report. fst (POST_route d br (Inr b)) =
           \<lparr> json = [(''success'', FBool True), (''analysis'', FAnalysis report),
                     (''message'', FStr ''Analysis completed successfully.'')],
             status = 200 \<rparr>
         \<and> analysisResult.url report = href u))"
proof (intro conjI impI)
  show "fst (POST d (Inl e))
     = \<lparr> json = [(''error'', FStr ''Internal server error'')], status = 500 \<rparr>"
    by (simp add: POST_unreadable)
  show "fst (POST_route d br (Inl e))
     = \<lparr> json = [(''error'', FStr ''Internal server error'')], status = 500 \<rparr>"
    by (simp add: POST_route_unreadable)
qed (auto simp: POST_unloggable POST_missing_url POST_invalid_url POST_escaped
       POST_route_unloggable POST_route_missing_url POST_route_invalid_url POST_route_escaped
       intro: POST_answered POST_route_answered)

text \<open>
  C4, amended: the hypotheses hold for https://example.com with all analyzers resolving,
  which is answered 200 by both handlers; for a body without URL, answered 400; and for
  the font analyzer rejecting, answered 500.
\<close>

theorem response_shape_witness:
  "loggable (example_body (JStr ''https://example.com'') JUndefined)
   \<and> truthy (body.url (example_body (JStr ''https://example.com'') JUndefined))
   \<and> validate all_succeed (body.url (example_body (JStr ''https://example.com'') JUndefined))
       = Some \<lparr> protocol = ''https:'', href = ''https://example.com/'' \<rparr>
   \<and> \<not> rejection_escapes all_succeed
         (component (example_body (JStr ''https://example.com'') JUndefined))
         ''https://example.com/''
   \<and> \<not> rejection_escapes_route all_succeed stub_browser
         (component (example_body (JStr ''https://example.com'') JUndefined))
         ''https://example.com/''
   \<and> status (fst (POST all_succeed
                  (Inr (example_body (JStr ''https://example.com'') JUndefined)))) = 200
   \<and> status (fst (POST_route all_succeed stub_browser
                  (Inr (example_body (JStr ''https://example.com'') JUndefined)))) = 200
   \<and> loggable (example_body JUndefined JUndefined)
   \<and> \<not> truthy (body.url (example_body JUndefined JUndefined))
   \<and> fst (POST all_succeed (Inr (example_body JUndefined JUndefined)))
       = \<lparr> json = [(''error'', FStr ''URL is required'')], status = 400 \<rparr>
   \<and> rejection_escapes
         (stub_deps (Inr speed80) (Inl (Error ''boom'')) (Inr image90) (Inr cta70))
         (component (example_body (JStr ''https://example.com'') JUndefined))
         ''https://example.com/''
   \<and> fst (POST (stub_deps (Inr speed80) (Inl (Error ''boom'')) (Inr image90) (Inr cta70))
              (Inr (example_body (JStr ''https://example.com'') JUndefined)))
       = \<lparr> json = [(''error'', FStr ''Internal server error'')], status = 500 \<rparr>"
proof -
  let ?b = "example_body (JStr ''https://example.com'') JUndefined"
  let ?m = "example_body JUndefined JUndefined"
  let ?u = "\<lparr> protocol = ''https:'', href = ''https://example.com/'' \<rparr>"
  let ?f = "stub_deps (Inr speed80) (Inl (Error ''boom'')) (Inr image90) (Inr cta70)"
  have l: "loggable ?b"
    by (simp add: loggable_def example_body_def)
  have t: "truthy (body.url ?b)"
    by (simp add: example_body_def)
  have v: "validate all_succeed (body.url ?b) = Some ?u"
    by (simp add: stub_defs validate_def URL_constructor_def)
  have vf: "validate ?f (body.url ?b) = Some ?u"
    by (simp add: stub_defs validate_def URL_constructor_def)
  have n: "\<not> rejection_escapes all_succeed (component ?b) (href ?u)"
    by (simp add: rejection_escapes_def stub_defs)
  have nr: "\<not> rejection_escapes_route all_succeed stub_browser (component ?b) (href ?u)"
    by (simp add: rejection_escapes_route_def rejection_escapes_def stub_defs)
  have r: "rejection_escapes ?f (component ?b) (href ?u)"
    by (simp add: rejection_escapes_def shouldRun_def stub_defs)
  have lm: "loggable ?m"
    by (simp add: loggable_def example_body_def)
  have tm: "\<not> truthy (body.url ?m)"
    by (simp add: example_body_def)
  note ok = response_shape [where d = all_succeed and b = ?b and u = ?u and br = stub_browser
                              and e = NonError]
  note missing = response_shape [where d = all_succeed and b = ?m and u = ?u
                                   and br = stub_browser and e = NonError]
  note failed = response_shape [where d = ?f and b = ?b and u = ?u
                                  and br = stub_browser and e = NonError]
  note c6 = ok [THEN conjunct2, THEN conjunct2, THEN conjunct2, THEN conjunct2, THEN conjunct2,
                THEN conjunct1, THEN mp, OF conjI [OF l conjI [OF t conjI [OF v n]]]]
  note c12 = ok [THEN conjunct2, THEN conjunct2, THEN conjunct2, THEN conjunct2, THEN conjunct2,
                 THEN conjunct2, THEN conjunct2, THEN conjunct2, THEN conjunct2, THEN conjunct2,
                 THEN conjunct2, THEN mp, OF conjI [OF l conjI [OF t conjI [OF v nr]]]]
  note c3 = missing [THEN conjunct2, THEN conjunct2, THEN conjunct1, THEN mp,
                     OF conjI [OF lm tm]]
  note c5 = failed [THEN conjunct2, THEN conjunct2, THEN conjunct2, THEN conjunct2,
                    THEN conjunct1, THEN mp, OF conjI [OF l conjI [OF t conjI [OF vf r]]]]
  from c6 have s1: "status (fst (POST all_succeed (Inr ?b))) = 200"
    by auto
  from c12 have s2: "status (fst (POST_route all_succeed stub_browser (Inr ?b))) = 200"
    by auto
  from s1 s2 c3 c5 l t v n nr lm tm r show ?thesis
    by simp
qed







section \<open>Properties of the browser session provider\<close>

lemma provider_remote:
  assumes "truthy_str (BLESS_KEY env)"
    "NODE_ENV env = Some ''production'' \<or> forceBrowserless opts = Some True"
  shows "\<exists>ep. createPuppeteerBrowser env p lp opts =
           ((case puppeteer_connect p ep of
               Inr browser \<Rightarrow> Inr browser
             | Inl e \<Rightarrow> Inl (connection_failed e)),
            [Connect ep], lp)"
  using assms
  by (auto simp: createPuppeteerBrowser_def Let_def split: option.splits sum.splits)

lemma provider_local:
  assumes "\<not> (truthy_str (BLESS_KEY env)
             \<and> (NODE_ENV env = Some ''production'' \<or> forceBrowserless opts = Some True))"
  shows "createPuppeteerBrowser env p lp opts =
           (case getLocalExecutablePath p lp of
              (Inl e, l) \<Rightarrow> (Inl e, [], l)
            | (Inr path, l) \<Rightarrow>
                (puppeteer_core_launch p path,
                 [Launch [''--no-sandbox'', ''--disable-setuid-sandbox'',
                          ''--disable-dev-shm-usage'', ''--disable-gpu''] path],
                 l))"
  using assms
  by (auto simp: createPuppeteerBrowser_def Let_def split: option.splits)

text \<open>On the first call of a module's life the path lookup never throws.\<close>

lemma getLocalExecutablePath_fresh:
  "\<exists>path l. getLocalExecutablePath p None = (Inr path, l)"
  by (simp add: getLocalExecutablePath_def split: sum.splits)

text \<open>
  The provider tries the remote service if and only if the credential is set (and not
  empty) and the environment is production or remote is forced. With no credential it
  never tries the remote service, whatever the environment, and launches locally on the
  module's first call, and later whenever the lookup of the executable path does not
  throw. When the remote connection fails the promise rejects with "Browserless
  connection failed: ..." and no local launch is tried.
\<close>

lemma provider_selection:
  assumes run: "createPuppeteerBrowser env p lp opts = (res, effs, lp')"
  shows "(attempts_remote effs \<longleftrightarrow>
            truthy_str (BLESS_KEY env)
            \<and> (NODE_ENV env = Some ''production'' \<or> forceBrowserless opts = Some True))
       \<and> (\<not> truthy_str (BLESS_KEY env) \<longrightarrow>
            \<not> attempts_remote effs
            \<and> (lp = None \<longrightarrow> attempts_local effs)
            \<and> (\<forall>path. fst (getLocalExecutablePath p lp) = Inr path \<longrightarrow>
                  attempts_local effs \<and> res = puppeteer_core_launch p path))
       \<and> (\<forall>ep e. Connect ep \<in> set effs \<and> puppeteer_connect p ep = Inl e \<longrightarrow>
            res = Inl (connection_failed e) \<and> \<not> attempts_local effs)"
proof (cases "truthy_str (BLESS_KEY env)
             \<and> (NODE_ENV env = Some ''production'' \<or> forceBrowserless opts = Some True)")
  case True
  then obtain ep where
    "createPuppeteerBrowser env p lp opts =
           ((case puppeteer_connect p ep of
               Inr browser \<Rightarrow> Inr browser
             | Inl e \<Rightarrow> Inl (connection_failed e)),
            [Connect ep], lp)"
    using provider_remote [of env opts p lp] by blast
  with run have effs: "effs = [Connect ep]"
    and res: "res = (case puppeteer_connect p ep of
               Inr browser \<Rightarrow> Inr browser
             | Inl e \<Rightarrow> Inl (connection_failed e))"
    by simp_all
  from True show ?thesis
    by (auto simp: effs res attempts_remote_def attempts_local_def is_connect_def)
next
  case False
  from provider_local [OF False, of p lp] run have
    eq: "(res, effs, lp') = (case getLocalExecutablePath p lp of
              (Inl e, l) \<Rightarrow> (Inl e, [], l)
            | (Inr path, l) \<Rightarrow>
                (puppeteer_core_launch p path,
                 [Launch [''--no-sandbox'', ''--disable-setuid-sandbox'',
                          ''--disable-dev-shm-usage'', ''--disable-gpu''] path],
                 l))"
    by simp
  obtain outcome l where g: "getLocalExecutablePath p lp = (outcome, l)"
    by (cases "getLocalExecutablePath p lp")
  show ?thesis
  proof (cases outcome)
    case (Inl e)
    with eq g have "effs = []" by simp
    moreover have "lp \<noteq> None"
    proof
      assume "lp = None"
      with Inl g getLocalExecutablePath_fresh [of p] show False by simp
    qed
    ultimately show ?thesis using False Inl g
      by (auto simp: attempts_remote_def attempts_local_def is_connect_def)
  next
    case (Inr path)
    with eq g have "effs = [Launch [''--no-sandbox'', ''--disable-setuid-sandbox'',
                          ''--disable-dev-shm-usage'', ''--disable-gpu''] path]"
      and "res = puppeteer_core_launch p path" by simp_all
    with False Inr g show ?thesis
      by (auto simp: attempts_remote_def attempts_local_def is_connect_def)
  qed
qed

text \<open>
  In production with a credential and the remote service refusing the connection the
  promise rejects and nothing is launched; in production without a credential the
  browser is launched locally.
\<close>

lemma provider_selection_example:
  "createPuppeteerBrowser production_env (stub_platform (Inl (Error ''refused''))) None
       default_options
     = (Inl (Error ''Browserless connection failed: refused''),
        [Connect ''wss://production-sfo.browserless.io?token=secret&headless=false&stealth=true&blockAds=true''],
        None)
   \<and> attempts_remote
        [Connect ''wss://production-sfo.browserless.io?token=secret&headless=false&stealth=true&blockAds=true'']
   \<and> \<not> attempts_local
        [Connect ''wss://production-sfo.browserless.io?token=secret&headless=false&stealth=true&blockAds=true'']
   \<and> createPuppeteerBrowser no_key_env (stub_platform (Inl (Error ''refused''))) None
         default_options
     = (Inr 1,
        [Launch [''--no-sandbox'', ''--disable-setuid-sandbox'', ''--disable-dev-shm-usage'',
                 ''--disable-gpu''] (Some ''/usr/bin/chromium'')],
        Some \<lparr> executablePath = Inr ''/usr/bin/chromium'' \<rparr>)
   \<and> \<not> attempts_remote
        [Launch [''--no-sandbox'', ''--disable-setuid-sandbox'', ''--disable-dev-shm-usage'',
                 ''--disable-gpu''] (Some ''/usr/bin/chromium'')]
   \<and> attempts_local
        [Launch [''--no-sandbox'', ''--disable-setuid-sandbox'', ''--disable-dev-shm-usage'',
                 ''--disable-gpu''] (Some ''/usr/bin/chromium'')]"
proof -
  let ?ep = "''wss://production-sfo.browserless.io?token=secret&headless=false&stealth=true&blockAds=true''"
  let ?launch = "Launch [''--no-sandbox'', ''--disable-setuid-sandbox'',
                   ''--disable-dev-shm-usage'', ''--disable-gpu''] (Some ''/usr/bin/chromium'')"
  have h1: "createPuppeteerBrowser production_env (stub_platform (Inl (Error ''refused''))) None
              default_options
            = (Inl (Error ''Browserless connection failed: refused''), [Connect ?ep], None)"
    by (simp add: createPuppeteerBrowser_def production_env_def stub_platform_def
          default_options_def truthy_str_def connection_failed_def)
  have h2: "createPuppeteerBrowser no_key_env (stub_platform (Inl (Error ''refused''))) None
              default_options
            = (Inr 1, [?launch], Some \<lparr> executablePath = Inr ''/usr/bin/chromium'' \<rparr>)"
    by (simp add: createPuppeteerBrowser_def no_key_env_def stub_platform_def
          default_options_def truthy_str_def getLocalExecutablePath_def)
  have k1: "truthy_str (BLESS_KEY production_env)"
    by (simp add: production_env_def truthy_str_def)
  have k2: "\<not> truthy_str (BLESS_KEY no_key_env)"
    by (simp add: no_key_env_def truthy_str_def)
  have c: "Connect ?ep \<in> set [Connect ?ep]
           \<and> puppeteer_connect (stub_platform (Inl (Error ''refused''))) ?ep = Inl (Error ''refused'')"
    by (simp add: stub_platform_def)
  from provider_selection [OF h1] k1 c
  have "attempts_remote [Connect ?ep]" "\<not> attempts_local [Connect ?ep]"
    by (auto simp: production_env_def)
  moreover from provider_selection [OF h2] k2
  have "\<not> attempts_remote [?launch]" "attempts_local [?launch]"
    by auto
  ultimately show ?thesis using h1 h2 by simp
qed

text \<open>
  C6 (session provider). The claim asks that without the credential every call launches
  locally. The remote half of the claim holds (\<open>provider_selection\<close>). The local half
  fails on a later call: where puppeteer can be imported and \<^verbatim>\<open>executablePath()\<close>
  throws, the first call catches the throw (lines 8-14), takes the path to be null and
  launches, while the second call, the module now loaded, calls
  \<^verbatim>\<open>executablePath()\<close> outside any try (line 16): the provider rejects and launches
  nothing.
\<close>

theorem later_call_launches_nothing:
  "createPuppeteerBrowser no_key_env no_browser_platform None default_options
     = (Inr 1,
        [Launch [''--no-sandbox'', ''--disable-setuid-sandbox'', ''--disable-dev-shm-usage'',
                 ''--disable-gpu''] None],
        Some no_browser_module)
   \<and> createPuppeteerBrowser no_key_env no_browser_platform (Some no_browser_module)
         default_options
     = (Inl (Error ''Could not find Chrome''), [], Some no_browser_module)"
  by (simp add: createPuppeteerBrowser_def getLocalExecutablePath_def no_key_env_def
        no_browser_platform_def no_browser_module_def default_options_def truthy_str_def)

section \<open>Properties of the page\<close>

lemmas page_defs =
  run_events_def Home_def handleAnalyze_def screenshot_settled_def callEmailAPI_def
  callEmailAPI_settled_def email_settled_def settle_def
  analysis_failed_def analysis_settled_def handleEmailSubmit_def handleReset_def
  handleForceRescan_def truthy_str_def dispatched_def reply_def preview_def email_sent_def
  analysisData.truncate_def

lemma run_events_Cons: "run_events c (ev # evs) = run_events (handle c ev) evs"
  by (simp add: run_events_def)

lemma run_events_append: "run_events c (xs @ ys) = run_events (run_events c xs) ys"
  by (simp add: run_events_def)

subsection \<open>The pending address\<close>

lemma handleEmailSubmit_pending:
  assumes "\<not> truthy_str (AnalysisState.analysisId (analysisState c))"
  shows "pendingEmailRef (handleEmailSubmit email c) = Some email"
    and "requests (handleEmailSubmit email c) = requests c"
    and "awaiting (handleEmailSubmit email c) = awaiting c"
    and "AnalysisState.analysisId (analysisState (handleEmailSubmit email c))
           = AnalysisState.analysisId (analysisState c)"
  using assms by (simp_all add: handleEmailSubmit_def Let_def)

lemma screenshot_event_keeps:
  "pendingEmailRef (handle c (ScreenshotSettled response)) = pendingEmailRef c"
  "requests (handle c (ScreenshotSettled response)) = requests c"
  "AnalysisState.analysisId (analysisState (handle c (ScreenshotSettled response)))
     = AnalysisState.analysisId (analysisState c)"
  "AnalysisRequest \<in> set (awaiting (handle c (ScreenshotSettled response)))
     \<longleftrightarrow> AnalysisRequest \<in> set (awaiting c)"
  by (simp_all add: settle_def screenshot_settled_def split: fetched.splits sum.splits)

lemma run_while_pending:
  assumes "\<not> truthy_str (AnalysisState.analysisId (analysisState c))"
    and "list_all while_pending evs"
  shows "requests (run_events c evs) = requests c
       \<and> AnalysisState.analysisId (analysisState (run_events c evs))
           = AnalysisState.analysisId (analysisState c)
       \<and> (AnalysisRequest \<in> set (awaiting (run_events c evs))
            \<longleftrightarrow> AnalysisRequest \<in> set (awaiting c))
       \<and> pendingEmailRef (run_events c evs)
           = (case last_submitted evs of
                None \<Rightarrow> pendingEmailRef c
              | Some email \<Rightarrow> Some email)"
  using assms
proof (induction evs arbitrary: c)
  case Nil
  then show ?case by (simp add: run_events_def)
next
  case (Cons ev evs)
  from Cons.prems have rest: "list_all while_pending evs" and ev: "while_pending ev"
    by simp_all
  show ?case
  proof (cases ev)
    case (EmailSubmit email)
    let ?c = "handleEmailSubmit email c"
    have id: "\<not> truthy_str (AnalysisState.analysisId (analysisState ?c))"
      using Cons.prems(1) by (simp add: handleEmailSubmit_pending)
    from Cons.IH [OF id rest] Cons.prems(1) show ?thesis
      by (simp add: EmailSubmit run_events_Cons handleEmailSubmit_pending
            split: option.splits)
  next
    case (ScreenshotSettled response)
    let ?c = "handle c (ScreenshotSettled response)"
    have id: "\<not> truthy_str (AnalysisState.analysisId (analysisState ?c))"
      using Cons.prems(1) by (simp add: screenshot_event_keeps del: handle.simps)
    from Cons.IH [OF id rest] show ?thesis
      unfolding ScreenshotSettled run_events_Cons
      by (simp add: screenshot_event_keeps del: handle.simps split: option.splits)
  qed (use ev in simp_all)
qed

lemma analysis_event_flush:
  assumes "AnalysisRequest \<in> set (awaiting c)"
    "pendingEmailRef c = Some email" "email \<noteq> []"
    "analyzeReply.analysisId res = Some aid" "aid \<noteq> []"
  shows "requests (handle c (AnalysisSettled (Ok (Inr res))))
           = requests c @ [FetchEmail email aid]"
    and "EmailRequest HandleAnalyze
           \<in> set (awaiting (handle c (AnalysisSettled (Ok (Inr res)))))"
  using assms
  by (simp_all add: settle_def analysis_settled_def Let_def truthy_str_def callEmailAPI_def)

lemma email_event_clears:
  assumes "EmailRequest HandleAnalyze \<in> set (awaiting c)"
  shows "pendingEmailRef (handle c (EmailSettled HandleAnalyze response)) = None"
    and "requests (handle c (EmailSettled HandleAnalyze response)) = requests c"
  using assms
  by (simp_all add: settle_def email_settled_def callEmailAPI_settled_def Let_def
        split: fetched.splits)

text \<open>
  When nothing but address submissions and the screenshot reaches the page before the
  analysis settles, and the email request of the flush settles next, the page does what
  C5 asks: the holder holds the last address, the address is posted once against the id
  when the analysis settles, and the holder is empty when the email request has settled.
\<close>

lemma pending_email_flushed_undisturbed:
  assumes noid: "\<not> truthy_str (AnalysisState.analysisId (analysisState c))"
    and inflight: "AnalysisRequest \<in> set (awaiting c)"
    and evs: "list_all while_pending evs"
    and email: "last_submitted evs = Some email" "email \<noteq> []"
    and aid: "analyzeReply.analysisId res = Some aid" "aid \<noteq> []"
  shows "pendingEmailRef (run_events c evs) = Some email
       \<and> dispatched (run_events c evs) = dispatched c
       \<and> dispatched (run_events c (evs @ [AnalysisSettled (Ok (Inr res))]))
           = dispatched c @ [(email, aid)]
       \<and> dispatched (run_events c (evs @ [AnalysisSettled (Ok (Inr res)),
                                            EmailSettled HandleAnalyze er]))
           = dispatched c @ [(email, aid)]
       \<and> pendingEmailRef (run_events c (evs @ [AnalysisSettled (Ok (Inr res)),
                                                 EmailSettled HandleAnalyze er])) = None"
proof -
  let ?c1 = "run_events c evs"
  let ?c2 = "handle ?c1 (AnalysisSettled (Ok (Inr res)))"
  let ?c3 = "handle ?c2 (EmailSettled HandleAnalyze er)"
  from run_while_pending [OF noid evs] email inflight have
    r1: "requests ?c1 = requests c" and p1: "pendingEmailRef ?c1 = Some email"
    and a1: "AnalysisRequest \<in> set (awaiting ?c1)"
    by simp_all
  have e2: "run_events c (evs @ [AnalysisSettled (Ok (Inr res))]) = ?c2"
    by (simp add: run_events_append run_events_def)
  have e3: "run_events c (evs @ [AnalysisSettled (Ok (Inr res)),
                                  EmailSettled HandleAnalyze er]) = ?c3"
    by (simp add: run_events_append run_events_def)
  note flush = analysis_event_flush [OF a1 p1 email(2) aid]
  note clear = email_event_clears [OF flush(2), of er]
  have d1: "dispatched ?c1 = dispatched c"
    using r1 by (simp add: dispatched_def)
  have d2: "dispatched ?c2 = dispatched c @ [(email, aid)]"
    using flush(1) r1 by (simp add: dispatched_def)
  have d3: "dispatched ?c3 = dispatched c @ [(email, aid)]"
    using clear(2) d2 by (simp add: dispatched_def)
  show ?thesis
    unfolding e2 e3 using p1 d1 d2 d3 clear(1) by (intro conjI)
qed

text \<open>
  C5 (pending email). The claim asks that an address submitted before the id exists is
  posted once when the pipeline completes. The flush empties the holder only after it
  has awaited the email request (lines 116-117), whatever the holder holds by then. So
  when the page is reset and a new URL and a new address are submitted while the email
  request of the previous flush is in flight, the settlement of that request wipes the
  new address, and the completion of the new analysis posts nothing: the only post made
  is the one of the first session.
\<close>

theorem pending_email_wiped:
  "pendingEmailRef (run_events Home
     [Analyze ''https://example.com'' False,
      EmailSubmit ''ann@example.com'',
      AnalysisSettled (Ok (Inr (reply None None (Some ''id-1'')))),
      Reset,
      Analyze ''https://example.org'' False,
      EmailSubmit ''bob@example.com'']) = Some ''bob@example.com''
   \<and> pendingEmailRef (run_events Home
     [Analyze ''https://example.com'' False,
      EmailSubmit ''ann@example.com'',
      AnalysisSettled (Ok (Inr (reply None None (Some ''id-1'')))),
      Reset,
      Analyze ''https://example.org'' False,
      EmailSubmit ''bob@example.com'',
      EmailSettled HandleAnalyze email_sent]) = None
   \<and> dispatched (run_events Home
     [Analyze ''https://example.com'' False,
      EmailSubmit ''ann@example.com'',
      AnalysisSettled (Ok (Inr (reply None None (Some ''id-1'')))),
      Reset,
      Analyze ''https://example.org'' False,
      EmailSubmit ''bob@example.com'',
      EmailSettled HandleAnalyze email_sent,
      AnalysisSettled (Ok (Inr (reply None None (Some ''id-2''))))])
     = [(''ann@example.com'', ''id-1'')]"
  by (simp add: page_defs)

subsection \<open>What a new submission clears\<close>

lemma handleAnalyze_clears_state:
  "analysisState (handleAnalyze u rescan c) =
     \<lparr> result = None, isLoading = True, error = None, showEmailInput = True,
       currentUrl = Some u, fromCache = False, emailSubmitted = False,
       emailSentToAPI = False, screenshotUrl = None, analysisId = None,
       emailLoading = False \<rparr>"
  by (simp add: handleAnalyze_def)

lemma handleAnalyze_keeps_pending:
  "pendingEmailRef (handleAnalyze u rescan c) = pendingEmailRef c"
  by (simp add: handleAnalyze_def)

lemma handleReset_clears_pending:
  "pendingEmailRef (handleReset c) = None"
  by (simp add: handleReset_def)

text \<open>
  C8 (reset on submit). The claim asks that a submission clears every field of the
  previous session, the held address included. \<open>handleAnalyze\<close> replaces the state
  (\<open>handleAnalyze_clears_state\<close>) but leaves the holder as it is
  (\<open>handleAnalyze_keeps_pending\<close>); only \<open>handleReset\<close> empties it. So an address
  submitted during a session that completed from the cache without an id is still held
  after the rescan is submitted, and is posted against the id of the new session.
\<close>

theorem stale_email_dispatched:
  "pendingEmailRef (run_events Home
     [Analyze ''https://example.com'' False,
      EmailSubmit ''ann@example.com'',
      AnalysisSettled (Ok (Inr (reply None (Some True) None))),
      ForceRescan]) = Some ''ann@example.com''
   \<and> dispatched (run_events Home
     [Analyze ''https://example.com'' False,
      EmailSubmit ''ann@example.com'',
      AnalysisSettled (Ok (Inr (reply None (Some True) None))),
      ForceRescan,
      AnalysisSettled (Ok (Inr (reply None None (Some ''id-2''))))])
     = [(''ann@example.com'', ''id-2'')]"
  by (simp add: page_defs)

subsection \<open>The screenshot\<close>

text \<open>A screenshot request that fails changes nothing.\<close>

lemma screenshot_failure_ignored:
  "screenshot_settled (Rejected e) c = c"
  "screenshot_settled (NotOk x) c = c"
  "screenshot_settled (Ok (Inl e)) c = c"
  by (simp_all add: screenshot_settled_def)

text \<open>When the screenshot settles first, the URL in the report replaces the preview.\<close>

lemma screenshot_then_analysis:
  assumes "analysis res = Some a" "analysisData.screenshotUrl a = Some shot" "shot \<noteq> []"
  shows "AnalysisState.screenshotUrl (analysisState
           (analysis_settled (Ok (Inr res)) (screenshot_settled response c))) = Some shot"
  using assms
  by (simp add: analysis_settled_def Let_def truthy_str_def callEmailAPI_def
        split: fetched.splits)

text \<open>
  C9 (screenshot precedence). The claim asks that the report's screenshot URL is the
  final one whatever the order of arrival. When the screenshot request settles after
  the analysis, its URL overwrites the report's; when it settles before, the report's
  URL replaces it.
\<close>

theorem late_preview_overwrites:
  "AnalysisState.screenshotUrl (analysisState (run_events Home
     [Analyze ''https://example.com'' False,
      AnalysisSettled (Ok (Inr (reply (Some ''pipeline.png'') None (Some ''id-1'')))),
      ScreenshotSettled (preview ''preview.png'')])) = Some ''preview.png''
   \<and> AnalysisState.screenshotUrl (analysisState (run_events Home
     [Analyze ''https://example.com'' False,
      ScreenshotSettled (preview ''preview.png''),
      AnalysisSettled (Ok (Inr (reply (Some ''pipeline.png'') None (Some ''id-1''))))]))
       = Some ''pipeline.png''"
  by (simp add: page_defs)

end
